theory Spec2Isabelle
  imports Main
begin

section \<open>The FillEvents workload of mlmd\_bench\<close>

text \<open>
  A shallow embedding of \<^verbatim>\<open>ml_metadata/tools/mlmd_bench/fill_events_workload.cc\<close>.
  The C++ mutates its reference parameters; the model passes the state explicitly and
  returns it updated. A \<^verbatim>\<open>tensorflow::Status\<close> is a value; what ends the process
  (\<^verbatim>\<open>LOG(FATAL)\<close>, a failed \<^verbatim>\<open>absl::get\<close>) or is undefined in C++ (a subscript out
  of range, a signed overflow) is a value of type \<open>Fatal\<close>. The pseudo-random source
  is a tape: the list of values that the distribution objects return, in the order of the
  calls. A loop that needs a draw from an exhausted tape has not returned: \<open>None\<close>.
\<close>

subsection \<open>Types declared outside the file\<close>

text \<open>The values of a C++ \<^verbatim>\<open>int64\<close>. Identifiers are only compared and stored.\<close>

type_synonym int64 = int

text \<open>
  Modelled from the spec: \<^verbatim>\<open>tensorflow::Status\<close> and its error codes
  (\<^verbatim>\<open>tensorflow/core/lib/core/status.h\<close> is not part of the sources). A status is a code and
  a message; it is \<open>ok\<close> exactly when its code is \<open>OK\<close>.
\<close>

datatype Code =
    OK | CANCELLED | UNKNOWN | INVALID_ARGUMENT | DEADLINE_EXCEEDED | NOT_FOUND
  | ALREADY_EXISTS | PERMISSION_DENIED | UNAUTHENTICATED | RESOURCE_EXHAUSTED
  | FAILED_PRECONDITION | ABORTED | OUT_OF_RANGE | UNIMPLEMENTED | INTERNAL
  | UNAVAILABLE | DATA_LOSS

record Status =
  code :: Code
  error_message :: string

definition ok :: "Status \<Rightarrow> bool" where
  "ok status = (code status = OK)"

definition Status_OK :: Status where
  "Status_OK = \<lparr>code = OK, error_message = ''''\<rparr>"

definition AlreadyExists :: "string \<Rightarrow> Status" where
  "AlreadyExists msg = \<lparr>code = ALREADY_EXISTS, error_message = msg\<rparr>"

text \<open>
  Modelled from the spec: the \<^verbatim>\<open>Event\<close> message (\<^verbatim>\<open>metadata_store.proto\<close> is not part of
  the sources). An event has a type, an artifact id, an execution id and a path of steps;
  a step holds an index or a key, and \<^verbatim>\<open>key()\<close> of an index step is the empty string.
  A freshly added event has type \<open>Event_UNKNOWN\<close> until \<^verbatim>\<open>set_type\<close>.
\<close>

datatype Event_Type = Event_UNKNOWN | Event_INPUT | Event_OUTPUT

datatype Step = Step_index int | Step_key string

fun key :: "Step \<Rightarrow> string" where
  "key (Step_key k) = k"
| "key (Step_index n) = ''''"

record Event =
  event_type :: Event_Type
  artifact_id :: int64
  execution_id :: int64
  path :: "Step list"

text \<open>
  Modelled from the spec: a \<^verbatim>\<open>Node\<close> is a tagged union of an artifact and an execution
  (\<^verbatim>\<open>util.h\<close> is not part of the sources); \<^verbatim>\<open>id()\<close> is the only field the file reads.
\<close>

datatype Node = Artifact int64 | Execution int64

text \<open>
  Modelled from the spec: the fields of \<^verbatim>\<open>FillEventsConfig\<close> that the file reads
  (\<^verbatim>\<open>mlmd_bench.proto\<close> is not part of the sources). \<open>FillEventsConfig_other\<close> stands for
  every specification value that is neither INPUT nor OUTPUT: the \<^verbatim>\<open>default:\<close> branch of
  \<^verbatim>\<open>SetEvent\<close>. The two popularity parameters only shape the random draws, which the
  tape replaces.
\<close>

datatype Specification = FillEventsConfig_INPUT | FillEventsConfig_OUTPUT | FillEventsConfig_other

record FillEventsConfig =
  config_specification :: Specification
  num_events_minimum :: int64
  num_events_maximum :: int64

fun Specification_Name :: "Specification \<Rightarrow> string" where
  "Specification_Name FillEventsConfig_INPUT = ''INPUT''"
| "Specification_Name FillEventsConfig_OUTPUT = ''OUTPUT''"
| "Specification_Name FillEventsConfig_other = ''''"

text \<open>
  Modelled from the spec: the store collaborator (\<^verbatim>\<open>metadata_store.h\<close> and \<^verbatim>\<open>util.h\<close> are
  not part of the sources). The store is a state machine over its own state \<open>'s\<close>: the
  query for the events of a list of artifact ids answers a status and the events of the
  response; the batch write answers a status; the discovery of the existing population
  answers a status, the artifact nodes and the execution nodes. Each returns the store's
  next state.
\<close>

record 's MetadataStore =
  GetEventsByArtifactIDs :: "'s \<Rightarrow> int64 list \<Rightarrow> (Status \<times> Event list) \<times> 's"
  PutEvents :: "'s \<Rightarrow> Event list \<Rightarrow> Status \<times> 's"
  GetExistingNodes :: "FillEventsConfig \<Rightarrow> 's \<Rightarrow> (Status \<times> Node list \<times> Node list) \<times> 's"

subsection \<open>Outcomes\<close>

text \<open>
  The ways in which the process ends or leaves defined behaviour: \<^verbatim>\<open>LOG(FATAL)\<close>, an
  \<^verbatim>\<open>absl::get\<close> on the alternative that the variant does not hold, a vector subscript out
  of range, the overflow of a signed integer, and a uniform distribution built over an
  empty range.
\<close>

datatype Fatal =
    LogFatal | BadVariantAccess | SubscriptOutOfRange | SignedOverflow | BadDistributionRange

text \<open>
  What a call gives back when it comes back: the returned status with the state it
  leaves behind, or the end of the process.
\<close>

datatype 'a Outcome = Returned Status 'a | Crashed Fatal

subsection \<open>The duplicate-output checks\<close>

definition CheckDuplicateOutputArtifactInCurrentSetUp ::
  "int64 \<Rightarrow> int64 set \<Rightarrow> bool \<times> int64 set" where
  "CheckDuplicateOutputArtifactInCurrentSetUp output_artifact_id output_artifact_ids =
     (if output_artifact_id \<in> output_artifact_ids then (True, output_artifact_ids)
      else (False, insert output_artifact_id output_artifact_ids))"

text \<open>The \<^verbatim>\<open>for\<close> loop over the events of the response, with its early return.\<close>

fun scan_response_events :: "Event list \<Rightarrow> Status" where
  "scan_response_events [] = Status_OK"
| "scan_response_events (event # events) =
     (if event_type event = Event_OUTPUT
      then AlreadyExists ''The current artifact has been outputted by another output event!''
      else scan_response_events events)"

definition CheckDuplicateOutputArtifactInDb ::
  "int64 \<Rightarrow> 's MetadataStore \<Rightarrow> 's \<Rightarrow> Status \<times> 's" where
  "CheckDuplicateOutputArtifactInDb output_artifact_id store s =
     (case GetEventsByArtifactIDs store s [output_artifact_id] of
        ((status, events), s') \<Rightarrow>
          if \<not> ok status then (status, s')
          else (scan_response_events events, s'))"

subsection \<open>Byte accounting and event construction\<close>

text \<open>The value of a C++ \<^verbatim>\<open>int\<close> (32 bits, two's complement) after a conversion.\<close>

definition to_int32 :: "int \<Rightarrow> int" where
  "to_int32 x = (x + 2147483648) mod 4294967296 - 2147483648"

text \<open>
  \<^verbatim>\<open>bytes += step.key().size()\<close> adds in \<^verbatim>\<open>size_t\<close> and converts the sum back to
  \<^verbatim>\<open>int\<close>.
\<close>

definition GetTransferredBytes :: "Event \<Rightarrow> int64" where
  "GetTransferredBytes event =
     foldl (\<lambda>bytes step. to_int32 (bytes + int (length (key step)))) (0 + (8 * 2 + 1))
       (path event)"

definition INT64_MAX :: int where
  "INT64_MAX = 9223372036854775807"

definition INT_MAX :: int where
  "INT_MAX = 2147483647"

text \<open>Lines 103 to 106 of \<^verbatim>\<open>SetEvent\<close>, once the type \<open>t\<close> of the added event is set.\<close>

definition fill_added_event ::
  "Event_Type \<Rightarrow> int64 \<Rightarrow> int64 \<Rightarrow> Event list \<Rightarrow> int64 \<Rightarrow> Fatal + (Event list \<times> int64)" where
  "fill_added_event t artifact_id' execution_id' put_request curr_bytes =
     (let event = \<lparr>event_type = t, artifact_id = artifact_id', execution_id = execution_id',
                    path = [Step_key ''foo'']\<rparr>
      in if curr_bytes + GetTransferredBytes event > INT64_MAX then Inl SignedOverflow
         else Inr (put_request @ [event], curr_bytes + GetTransferredBytes event))"

definition SetEvent ::
  "FillEventsConfig \<Rightarrow> int64 \<Rightarrow> int64 \<Rightarrow> Event list \<Rightarrow> int64 \<Rightarrow> Fatal + (Event list \<times> int64)" where
  "SetEvent fill_events_config artifact_id' execution_id' put_request curr_bytes =
     (case config_specification fill_events_config of
        FillEventsConfig_INPUT \<Rightarrow>
          fill_added_event Event_INPUT artifact_id' execution_id' put_request curr_bytes
      | FillEventsConfig_OUTPUT \<Rightarrow>
          fill_added_event Event_OUTPUT artifact_id' execution_id' put_request curr_bytes
      | FillEventsConfig_other \<Rightarrow> Inl LogFatal)"

subsection \<open>GenerateEvent\<close>

text \<open>The variables that \<^verbatim>\<open>GenerateEvent\<close> receives by reference, and the store's state.\<close>

record 's gen_state =
  output_artifact_ids :: "int64 set"
  put_request :: "Event list"
  curr_bytes :: int64
  store_state :: 's

text \<open>
  \<^verbatim>\<open>absl::get<Artifact>(nodes[k]).id()\<close> and \<^verbatim>\<open>absl::get<Execution>(nodes[k]).id()\<close>:
  the subscript is undefined out of range, and \<^verbatim>\<open>absl::get\<close> fails on the other
  alternative.
\<close>

definition get_Artifact_id :: "Node list \<Rightarrow> nat \<Rightarrow> Fatal + int64" where
  "get_Artifact_id nodes k =
     (if k < length nodes
      then (case nodes ! k of Artifact a \<Rightarrow> Inr a | Execution x \<Rightarrow> Inl BadVariantAccess)
      else Inl SubscriptOutOfRange)"

definition get_Execution_id :: "Node list \<Rightarrow> nat \<Rightarrow> Fatal + int64" where
  "get_Execution_id nodes k =
     (if k < length nodes
      then (case nodes ! k of Execution x \<Rightarrow> Inr x | Artifact a \<Rightarrow> Inl BadVariantAccess)
      else Inl SubscriptOutOfRange)"

text \<open>
  One turn of the \<^verbatim>\<open>while\<close> loop, for the pair of indices that the two index
  distributions return: the loop goes on with the counter and the state, or the function
  returns a status, or the process ends.
\<close>

datatype 's Turn = Continue int "'s gen_state" | Return Status "'s gen_state" | Stop Fatal

text \<open>Lines 141 to 143: \<^verbatim>\<open>SetEvent\<close>, then \<^verbatim>\<open>i++\<close> on a C++ \<^verbatim>\<open>int\<close>.\<close>

definition accept_candidate ::
  "FillEventsConfig \<Rightarrow> int64 \<Rightarrow> int64 \<Rightarrow> int \<Rightarrow> 's gen_state \<Rightarrow> 's Turn" where
  "accept_candidate fill_events_config artifact_id' execution_id' i st =
     (case SetEvent fill_events_config artifact_id' execution_id' (put_request st) (curr_bytes st) of
        Inl fatal \<Rightarrow> Stop fatal
      | Inr (put_request', curr_bytes') \<Rightarrow>
          (if i = INT_MAX then Stop SignedOverflow
           else Continue (i + 1) (st\<lparr>put_request := put_request', curr_bytes := curr_bytes'\<rparr>)))"

text \<open>Lines 127 to 140: the two checks of an OUTPUT candidate, then the rejection.\<close>

definition check_output_candidate ::
  "FillEventsConfig \<Rightarrow> 's MetadataStore \<Rightarrow> int64 \<Rightarrow> int64 \<Rightarrow> int \<Rightarrow> 's gen_state \<Rightarrow> 's Turn" where
  "check_output_candidate fill_events_config store artifact_id' execution_id' i st =
     (case CheckDuplicateOutputArtifactInCurrentSetUp artifact_id' (output_artifact_ids st) of
        (artifact_has_been_outputted_in_setup, output_artifact_ids') \<Rightarrow>
          (case CheckDuplicateOutputArtifactInDb artifact_id' store (store_state st) of
             (status, s') \<Rightarrow>
               (let st' = st\<lparr>output_artifact_ids := output_artifact_ids', store_state := s'\<rparr>
                in if \<not> ok status \<and> code status \<noteq> ALREADY_EXISTS then Return status st'
                   else if artifact_has_been_outputted_in_setup \<or> \<not> ok status
                        then Continue i st'
                        else accept_candidate fill_events_config artifact_id' execution_id' i st')))"

definition GenerateEvent_turn ::
  "FillEventsConfig \<Rightarrow> Node list \<Rightarrow> Node list \<Rightarrow> 's MetadataStore \<Rightarrow> nat \<times> nat \<Rightarrow> int \<Rightarrow>
   's gen_state \<Rightarrow> 's Turn" where
  "GenerateEvent_turn fill_events_config existing_artifact_nodes existing_execution_nodes store
     draw i st =
     (case get_Artifact_id existing_artifact_nodes (fst draw) of
        Inl fatal \<Rightarrow> Stop fatal
      | Inr artifact_id' \<Rightarrow>
          (case get_Execution_id existing_execution_nodes (snd draw) of
             Inl fatal \<Rightarrow> Stop fatal
           | Inr execution_id' \<Rightarrow>
               (if config_specification fill_events_config = FillEventsConfig_OUTPUT
                then check_output_candidate fill_events_config store artifact_id' execution_id' i st
                else accept_candidate fill_events_config artifact_id' execution_id' i st)))"

text \<open>
  The \<^verbatim>\<open>while (i < num_events)\<close> loop from counter \<open>i\<close>. Each turn takes one pair of
  indices from the tape; the result carries the draws that are left.
\<close>

fun GenerateEvent_while ::
  "FillEventsConfig \<Rightarrow> Node list \<Rightarrow> Node list \<Rightarrow> int64 \<Rightarrow> 's MetadataStore \<Rightarrow>
   (nat \<times> nat) list \<Rightarrow> int \<Rightarrow> 's gen_state \<Rightarrow> ('s gen_state \<times> (nat \<times> nat) list) Outcome option" where
  "GenerateEvent_while fill_events_config existing_artifact_nodes existing_execution_nodes
     num_events store [] i st =
     (if i < num_events then None else Some (Returned Status_OK (st, [])))"
| "GenerateEvent_while fill_events_config existing_artifact_nodes existing_execution_nodes
     num_events store (draw # gen) i st =
     (if i < num_events then
        (case GenerateEvent_turn fill_events_config existing_artifact_nodes
                existing_execution_nodes store draw i st of
           Continue i' st' \<Rightarrow>
             GenerateEvent_while fill_events_config existing_artifact_nodes
               existing_execution_nodes num_events store gen i' st'
         | Return status st' \<Rightarrow> Some (Returned status (st', gen))
         | Stop fatal \<Rightarrow> Some (Crashed fatal))
      else Some (Returned Status_OK (st, draw # gen)))"

definition GenerateEvent ::
  "FillEventsConfig \<Rightarrow> Node list \<Rightarrow> Node list \<Rightarrow> int64 \<Rightarrow> 's MetadataStore \<Rightarrow>
   (nat \<times> nat) list \<Rightarrow> 's gen_state \<Rightarrow> ('s gen_state \<times> (nat \<times> nat) list) Outcome option" where
  "GenerateEvent fill_events_config existing_artifact_nodes existing_execution_nodes num_events
     store gen st =
     GenerateEvent_while fill_events_config existing_artifact_nodes existing_execution_nodes
       num_events store gen 0 st"

subsection \<open>The workload object\<close>

text \<open>The members of \<^verbatim>\<open>FillEvents\<close>: \<open>m_x\<close> is the member \<^verbatim>\<open>x_\<close>.\<close>

record FillEvents =
  m_fill_events_config :: FillEventsConfig
  m_num_operations :: int64
  m_name :: string
  m_work_items :: "(Event list \<times> int64) list"
  m_output_artifact_ids :: "int64 set"

definition FillEvents_new :: "FillEventsConfig \<Rightarrow> int64 \<Rightarrow> FillEvents" where
  "FillEvents_new fill_events_config num_operations =
     \<lparr>m_fill_events_config = fill_events_config,
      m_num_operations = num_operations,
      m_name = ''FILL_EVENTS_'' @ Specification_Name (config_specification fill_events_config),
      m_work_items = [],
      m_output_artifact_ids = {}\<rparr>"

definition GetName :: "FillEvents \<Rightarrow> string" where
  "GetName this = m_name this"

text \<open>
  The \<^verbatim>\<open>for\<close> loop of \<^verbatim>\<open>SetUpImpl\<close> from counter \<open>i\<close>. The first tape holds the values
  that \<^verbatim>\<open>num_events_dist(gen)\<close> returns, one for each operation; the second the pairs of
  indices. The set of used output artifacts is a member of the object, so what
  \<^verbatim>\<open>GenerateEvent\<close> inserts stays, also when it fails.
\<close>

fun SetUpImpl_for ::
  "FillEvents \<Rightarrow> Node list \<Rightarrow> Node list \<Rightarrow> 's MetadataStore \<Rightarrow> int64 list \<Rightarrow>
   (nat \<times> nat) list \<Rightarrow> int64 \<Rightarrow> 's \<Rightarrow> (FillEvents \<times> 's) Outcome option" where
  "SetUpImpl_for this existing_artifact_nodes existing_execution_nodes store [] gen i s =
     (if i < m_num_operations this then None else Some (Returned Status_OK (this, s)))"
| "SetUpImpl_for this existing_artifact_nodes existing_execution_nodes store
     (num_events # num_events_dist) gen i s =
     (if i < m_num_operations this then
        (case GenerateEvent (m_fill_events_config this) existing_artifact_nodes
                existing_execution_nodes num_events store gen
                \<lparr>output_artifact_ids = m_output_artifact_ids this, put_request = [],
                 curr_bytes = 0, store_state = s\<rparr> of
           None \<Rightarrow> None
         | Some (Crashed fatal) \<Rightarrow> Some (Crashed fatal)
         | Some (Returned status (st, gen')) \<Rightarrow>
             (if \<not> ok status
              then Some (Returned status
                     (this\<lparr>m_output_artifact_ids := output_artifact_ids st\<rparr>, store_state st))
              else SetUpImpl_for
                     (this\<lparr>m_output_artifact_ids := output_artifact_ids st,
                            m_work_items := m_work_items this @ [(put_request st, curr_bytes st)]\<rparr>)
                     existing_artifact_nodes existing_execution_nodes store num_events_dist gen'
                     (i + 1) (store_state st)))
      else Some (Returned Status_OK (this, s)))"

text \<open>
  \<^verbatim>\<open>SetUpImpl\<close>. A \<^verbatim>\<open>std::uniform_int_distribution\<close> whose minimum exceeds its maximum
  is undefined. The seed, the gamma variates and the two categorical distributions built
  from them only decide which values the tapes hold.
\<close>

definition SetUpImpl ::
  "FillEvents \<Rightarrow> 's MetadataStore \<Rightarrow> int64 list \<Rightarrow> (nat \<times> nat) list \<Rightarrow> 's \<Rightarrow>
   (FillEvents \<times> 's) Outcome option" where
  "SetUpImpl this store num_events_dist gen s =
     (if num_events_maximum (m_fill_events_config this) < num_events_minimum (m_fill_events_config this)
      then Some (Crashed BadDistributionRange)
      else (case GetExistingNodes store (m_fill_events_config this) s of
              ((status, existing_artifact_nodes, existing_execution_nodes), s') \<Rightarrow>
                (if \<not> ok status then Some (Returned status (this, s'))
                 else SetUpImpl_for this existing_artifact_nodes existing_execution_nodes store
                        num_events_dist gen 0 s')))"

definition RunOpImpl ::
  "FillEvents \<Rightarrow> int64 \<Rightarrow> 's MetadataStore \<Rightarrow> 's \<Rightarrow> (FillEvents \<times> 's) Outcome" where
  "RunOpImpl this work_items_index store s =
     (if 0 \<le> work_items_index \<and> work_items_index < int (length (m_work_items this))
      then (let put_request' = fst (m_work_items this ! nat work_items_index)
            in case PutEvents store s put_request' of
                 (status, s') \<Rightarrow> Returned status (this, s'))
      else Crashed SubscriptOutOfRange)"

definition TearDownImpl :: "FillEvents \<Rightarrow> Status \<times> FillEvents" where
  "TearDownImpl this = (Status_OK, this\<lparr>m_work_items := []\<rparr>)"

subsection \<open>Notions used to state the properties\<close>

text \<open>The work items that a call appended: those of \<open>this'\<close> behind those of \<open>this\<close>.\<close>

definition new_work_items :: "FillEvents \<Rightarrow> FillEvents \<Rightarrow> (Event list \<times> int64) list" where
  "new_work_items this this' = drop (length (m_work_items this)) (m_work_items this')"

text \<open>The event that \<^verbatim>\<open>SetEvent\<close> builds, for a type, an artifact and an execution.\<close>

definition foo_event :: "Event_Type \<Rightarrow> int64 \<Rightarrow> int64 \<Rightarrow> Event" where
  "foo_event t a x =
     \<lparr>event_type = t, artifact_id = a, execution_id = x, path = [Step_key ''foo'']\<rparr>"

text \<open>The type that \<^verbatim>\<open>SetEvent\<close> sets when it does not end the process.\<close>

definition stamped_type :: "FillEventsConfig \<Rightarrow> Event_Type" where
  "stamped_type cfg =
     (if config_specification cfg = FillEventsConfig_INPUT then Event_INPUT else Event_OUTPUT)"

text \<open>The events of a list that have type OUTPUT and reference the artifact \<open>a\<close>.\<close>

definition output_events_on :: "int64 \<Rightarrow> Event list \<Rightarrow> Event list" where
  "output_events_on a events =
     filter (\<lambda>e. event_type e = Event_OUTPUT \<and> artifact_id e = a) events"

text \<open>
  A store whose query reports the persisted events faithfully: \<open>persisted\<close> reads the
  persisted events off a state of the store; the query for one artifact answers OK with
  exactly the persisted events that reference the artifact, and neither the query nor the
  discovery of the population changes what is persisted.
\<close>

definition faithful_store :: "'s MetadataStore \<Rightarrow> ('s \<Rightarrow> Event list) \<Rightarrow> bool" where
  "faithful_store store persisted =
     ((\<forall>s a. fst (GetEventsByArtifactIDs store s [a]) =
              (Status_OK, filter (\<lambda>e. artifact_id e = a) (persisted s))) \<and>
      (\<forall>s ids. persisted (snd (GetEventsByArtifactIDs store s ids)) = persisted s) \<and>
      (\<forall>cfg s. persisted (snd (GetExistingNodes store cfg s)) = persisted s))"

text \<open>The state that a turn leaves behind, when the process goes on.\<close>

fun turn_state :: "'s Turn \<Rightarrow> 's gen_state option" where
  "turn_state (Continue i st) = Some st"
| "turn_state (Return status st) = Some st"
| "turn_state (Stop fatal) = None"

text \<open>The state in which \<^verbatim>\<open>SetUpImpl\<close> starts a batch: an empty request and no bytes.\<close>

definition gen_state_0 :: "int64 set \<Rightarrow> 's \<Rightarrow> 's gen_state" where
  "gen_state_0 ids s = \<lparr>output_artifact_ids = ids, put_request = [], curr_bytes = 0, store_state = s\<rparr>"

text \<open>
  A batch as \<^verbatim>\<open>SetUpImpl\<close> stores it for the drawn number of events \<open>n\<close>: as many
  events as \<open>n\<close> asks for (none when \<open>n\<close> is negative), each built by \<^verbatim>\<open>SetEvent\<close>, and
  20 bytes for each.
\<close>

definition stored_batch :: "FillEventsConfig \<Rightarrow> int64 \<Rightarrow> Event list \<times> int64 \<Rightarrow> bool" where
  "stored_batch cfg n w =
     (int (length (fst w)) = max 0 n \<and> snd w = 20 * int (length (fst w)) \<and>
      (\<forall>e\<in>set (fst w). \<exists>a x. e = foo_event (stamped_type cfg) a x))"

text \<open>
  The events \<open>new\<close> appended in an OUTPUT run while the set of used output artifacts went
  from \<open>ids\<close> to \<open>ids'\<close>: they are OUTPUT events, their artifacts are pairwise different,
  were not in the set before and are in it afterwards, and the set has only grown.
\<close>

definition fresh_outputs ::
  "int64 set \<Rightarrow> int64 set \<Rightarrow> Event list \<Rightarrow> bool" where
  "fresh_outputs ids ids' new =
     (distinct (map artifact_id new) \<and> artifact_id ` set new \<inter> ids = {} \<and>
      ids \<union> artifact_id ` set new \<subseteq> ids' \<and>
      (\<forall>e\<in>set new. event_type e = Event_OUTPUT))"

text \<open>
  The batches whose generation returns OK, operation by operation from counter \<open>i\<close>, up to
  the first operation whose generation does not return OK (or does not return): what the
  \<^verbatim>\<open>for\<close> loop of \<^verbatim>\<open>SetUpImpl\<close> has to have appended when it returns.
\<close>

fun completed_batches_for ::
  "FillEventsConfig \<Rightarrow> int64 \<Rightarrow> Node list \<Rightarrow> Node list \<Rightarrow> 's MetadataStore \<Rightarrow> int64 list \<Rightarrow>
   (nat \<times> nat) list \<Rightarrow> int64 \<Rightarrow> int64 set \<Rightarrow> 's \<Rightarrow> (Event list \<times> int64) list" where
  "completed_batches_for cfg num_operations arts execs store [] gen i ids s = []"
| "completed_batches_for cfg num_operations arts execs store (n # nes) gen i ids s =
     (if i < num_operations then
        (case GenerateEvent cfg arts execs n store gen (gen_state_0 ids s) of
           None \<Rightarrow> []
         | Some (Crashed fatal) \<Rightarrow> []
         | Some (Returned status (st, gen')) \<Rightarrow>
             (if ok status
              then (put_request st, curr_bytes st) #
                   completed_batches_for cfg num_operations arts execs store nes gen' (i + 1)
                     (output_artifact_ids st) (store_state st)
              else []))
      else [])"

text \<open>The same for \<^verbatim>\<open>SetUpImpl\<close>: no batch when the discovery of the population fails.\<close>

definition completed_batches ::
  "FillEvents \<Rightarrow> 's MetadataStore \<Rightarrow> int64 list \<Rightarrow> (nat \<times> nat) list \<Rightarrow> 's \<Rightarrow>
   (Event list \<times> int64) list" where
  "completed_batches this store nes gen s =
     (case GetExistingNodes store (m_fill_events_config this) s of
        ((status, arts, execs), s') \<Rightarrow>
          (if ok status
           then completed_batches_for (m_fill_events_config this) (m_num_operations this) arts execs
                  store nes gen 0 (m_output_artifact_ids this) s'
           else []))"

subsection \<open>Example stores\<close>

text \<open>
  A store over the list of its persisted events: the query filters the list, the batch
  write appends to it, and the population is fixed.
\<close>

definition db_store :: "Node list \<Rightarrow> Node list \<Rightarrow> (Event list) MetadataStore" where
  "db_store artifact_nodes execution_nodes =
     \<lparr>GetEventsByArtifactIDs = (\<lambda>s ids. ((Status_OK, filter (\<lambda>e. artifact_id e \<in> set ids) s), s)),
      PutEvents = (\<lambda>s events. (Status_OK, s @ events)),
      GetExistingNodes = (\<lambda>cfg s. ((Status_OK, artifact_nodes, execution_nodes), s))\<rparr>"

text \<open>
  A store that answers its queries from a script: the state is the list of the answers
  still to give, and a query past the end of the script answers OK with no event. A batch
  write answers the given status.
\<close>

definition scripted_store ::
  "Node list \<Rightarrow> Node list \<Rightarrow> Status \<Rightarrow> ((Status \<times> Event list) list) MetadataStore" where
  "scripted_store artifact_nodes execution_nodes write_status =
     \<lparr>GetEventsByArtifactIDs =
        (\<lambda>s ids. case s of [] \<Rightarrow> ((Status_OK, []), []) | answer # answers \<Rightarrow> (answer, answers)),
      PutEvents = (\<lambda>s events. (write_status, s)),
      GetExistingNodes = (\<lambda>cfg s. ((Status_OK, artifact_nodes, execution_nodes), s))\<rparr>"

definition output_config :: FillEventsConfig where
  "output_config =
     \<lparr>config_specification = FillEventsConfig_OUTPUT, num_events_minimum = 1,
      num_events_maximum = 2\<rparr>"

definition input_config :: FillEventsConfig where
  "input_config =
     \<lparr>config_specification = FillEventsConfig_INPUT, num_events_minimum = 2,
      num_events_maximum = 2\<rparr>"

definition error_status :: "Code \<Rightarrow> Status" where
  "error_status c = \<lparr>code = c, error_message = ''store failure''\<rparr>"

text \<open>A configuration whose range of event counts is negative.\<close>

definition negative_config :: FillEventsConfig where
  "negative_config =
     \<lparr>config_specification = FillEventsConfig_INPUT, num_events_minimum = - 1,
      num_events_maximum = - 1\<rparr>"

text \<open>A population of two artifacts and one execution, and the two stores over it.\<close>

definition two_artifacts :: "Node list" where
  "two_artifacts = [Artifact 1, Artifact 2]"

definition one_execution :: "Node list" where
  "one_execution = [Execution 7]"

definition answering :: "(Status \<times> Event list) list MetadataStore" where
  "answering = scripted_store two_artifacts one_execution Status_OK"

definition persisting :: "Event list MetadataStore" where
  "persisting = db_store two_artifacts one_execution"

text \<open>The start of a batch against the scripted store.\<close>

definition script_state ::
  "int64 set \<Rightarrow> (Status \<times> Event list) list \<Rightarrow> (Status \<times> Event list) list gen_state" where
  "script_state ids answers = gen_state_0 ids answers"

text \<open>A workload object of an OUTPUT run in which artifact 1 has been used.\<close>

definition used_1 :: FillEvents where
  "used_1 = (FillEvents_new output_config 1)\<lparr>m_output_artifact_ids := {1}\<rparr>"

text \<open>A population of three artifacts, and fresh workload objects of an OUTPUT run.\<close>

definition three_artifacts :: "Node list" where
  "three_artifacts = [Artifact 1, Artifact 2, Artifact 3]"

definition answering_3 :: "(Status \<times> Event list) list MetadataStore" where
  "answering_3 = scripted_store three_artifacts one_execution Status_OK"

definition fresh_2 :: FillEvents where
  "fresh_2 = FillEvents_new output_config 2"

definition fresh_3 :: FillEvents where
  "fresh_3 = FillEvents_new output_config 3"

section \<open>Properties\<close>

subsection \<open>One turn of the loop\<close>

lemma CheckDuplicateOutputArtifactInCurrentSetUp_eq:
  "CheckDuplicateOutputArtifactInCurrentSetUp a ids = (a \<in> ids, insert a ids)"
  by (simp add: CheckDuplicateOutputArtifactInCurrentSetUp_def insert_absorb)

lemma GetTransferredBytes_foo_event: "GetTransferredBytes (foo_event t a x) = 20"
  by (simp add: GetTransferredBytes_def foo_event_def to_int32_def)

lemma fill_added_event_eq:
  "fill_added_event t a x pr cb =
     (if cb + 20 > INT64_MAX then Inl SignedOverflow
      else Inr (pr @ [foo_event t a x], cb + 20))"
  using GetTransferredBytes_foo_event [of t a x]
  by (simp add: fill_added_event_def foo_event_def Let_def)

lemma SetEvent_Inr:
  assumes "SetEvent cfg a x pr cb = Inr (pr', cb')"
  shows "pr' = pr @ [foo_event (stamped_type cfg) a x] \<and> cb' = cb + 20 \<and>
         config_specification cfg \<noteq> FillEventsConfig_other"
  using assms
  by (auto simp: SetEvent_def fill_added_event_eq stamped_type_def
           split: Specification.splits if_splits)

lemma accept_candidate_Continue:
  assumes "accept_candidate cfg a x i st = Continue i' st'"
  shows "i' = i + 1 \<and> i \<noteq> INT_MAX \<and>
         st' = st\<lparr>put_request := put_request st @ [foo_event (stamped_type cfg) a x],
                  curr_bytes := curr_bytes st + 20\<rparr>"
  using assms
  by (auto simp: accept_candidate_def split: sum.splits if_splits dest!: SetEvent_Inr)

lemma accept_candidate_not_Return: "accept_candidate cfg a x i st \<noteq> Return status st'"
  by (auto simp: accept_candidate_def split: sum.splits if_splits)

lemma check_output_candidate_Return:
  assumes "check_output_candidate cfg store a x i st = Return status st'"
  shows "status = fst (CheckDuplicateOutputArtifactInDb a store (store_state st)) \<and>
         \<not> ok status \<and> code status \<noteq> ALREADY_EXISTS \<and>
         st' = st\<lparr>output_artifact_ids := insert a (output_artifact_ids st),
                  store_state := snd (CheckDuplicateOutputArtifactInDb a store (store_state st))\<rparr>"
  using assms
  by (auto simp: check_output_candidate_def CheckDuplicateOutputArtifactInCurrentSetUp_eq Let_def
                 accept_candidate_not_Return
           split: prod.splits if_splits)

lemma check_output_candidate_Continue:
  assumes "check_output_candidate cfg store a x i st = Continue i' st'"
  shows "(i' = i \<and>
          (a \<in> output_artifact_ids st \<or>
           code (fst (CheckDuplicateOutputArtifactInDb a store (store_state st))) = ALREADY_EXISTS) \<and>
          st' = st\<lparr>output_artifact_ids := insert a (output_artifact_ids st),
                   store_state := snd (CheckDuplicateOutputArtifactInDb a store (store_state st))\<rparr>) \<or>
         (i' = i + 1 \<and> i \<noteq> INT_MAX \<and> a \<notin> output_artifact_ids st \<and>
          ok (fst (CheckDuplicateOutputArtifactInDb a store (store_state st))) \<and>
          st' = st\<lparr>output_artifact_ids := insert a (output_artifact_ids st),
                   store_state := snd (CheckDuplicateOutputArtifactInDb a store (store_state st)),
                   put_request := put_request st @ [foo_event (stamped_type cfg) a x],
                   curr_bytes := curr_bytes st + 20\<rparr>)"
  using assms
  by (auto simp: check_output_candidate_def CheckDuplicateOutputArtifactInCurrentSetUp_eq Let_def
           split: prod.splits if_splits dest!: accept_candidate_Continue)


lemma GenerateEvent_turn_Continue:
  assumes "GenerateEvent_turn cfg arts execs store draw i st = Continue i' st'"
  shows "\<exists>a x. get_Artifact_id arts (fst draw) = Inr a \<and> get_Execution_id execs (snd draw) = Inr x \<and>
           (if config_specification cfg = FillEventsConfig_OUTPUT
            then check_output_candidate cfg store a x i st = Continue i' st'
            else accept_candidate cfg a x i st = Continue i' st')"
  using assms by (auto simp: GenerateEvent_turn_def split: sum.splits if_splits)

lemma GenerateEvent_turn_Return:
  assumes "GenerateEvent_turn cfg arts execs store draw i st = Return status st'"
  shows "\<exists>a x. get_Artifact_id arts (fst draw) = Inr a \<and> get_Execution_id execs (snd draw) = Inr x \<and>
           config_specification cfg = FillEventsConfig_OUTPUT \<and>
           check_output_candidate cfg store a x i st = Return status st'"
  using assms
  by (auto simp: GenerateEvent_turn_def accept_candidate_not_Return split: sum.splits if_splits)

text \<open>What a turn that goes on has done: nothing to the batch, or one event more.\<close>

lemma GenerateEvent_turn_Continue_batch:
  assumes "GenerateEvent_turn cfg arts execs store draw i st = Continue i' st'"
  shows "(i' = i \<and> put_request st' = put_request st \<and> curr_bytes st' = curr_bytes st) \<or>
         (i' = i + 1 \<and> curr_bytes st' = curr_bytes st + 20 \<and>
          (\<exists>a x. put_request st' = put_request st @ [foo_event (stamped_type cfg) a x]))"
proof -
  from GenerateEvent_turn_Continue [OF assms] obtain a x where
    c: "if config_specification cfg = FillEventsConfig_OUTPUT
        then check_output_candidate cfg store a x i st = Continue i' st'
        else accept_candidate cfg a x i st = Continue i' st'"
    by blast
  show ?thesis
  proof (cases "config_specification cfg = FillEventsConfig_OUTPUT")
    case True
    with c have "check_output_candidate cfg store a x i st = Continue i' st'" by simp
    from check_output_candidate_Continue [OF this] show ?thesis by force
  next
    case False
    with c have "accept_candidate cfg a x i st = Continue i' st'" by simp
    from accept_candidate_Continue [OF this] show ?thesis by force
  qed
qed

lemma GenerateEvent_turn_Return_batch:
  assumes "GenerateEvent_turn cfg arts execs store draw i st = Return status st'"
  shows "put_request st' = put_request st \<and> curr_bytes st' = curr_bytes st \<and>
         \<not> ok status \<and> code status \<noteq> ALREADY_EXISTS"
proof -
  from GenerateEvent_turn_Return [OF assms] obtain a x where
    "check_output_candidate cfg store a x i st = Return status st'" by blast
  from check_output_candidate_Return [OF this] show ?thesis by auto
qed

lemma ok_Status_OK: "ok Status_OK"
  by (simp add: ok_def Status_OK_def)

lemma code_Status_OK: "code Status_OK = OK"
  by (simp add: Status_OK_def)

lemma GenerateEvent_while_batch:
  assumes "GenerateEvent_while cfg arts execs n store gen i st = Some (Returned status (st', gen'))"
  shows "\<exists>new. put_request st' = put_request st @ new \<and>
           curr_bytes st' = curr_bytes st + 20 * int (length new) \<and>
           (\<forall>e\<in>set new. \<exists>a x. e = foo_event (stamped_type cfg) a x) \<and>
           (ok status \<longrightarrow> int (length new) = max 0 (n - i)) \<and>
           code status \<noteq> ALREADY_EXISTS"
  using assms
proof (induction gen arbitrary: i st)
  case Nil
  then show ?case by (auto simp: ok_Status_OK code_Status_OK split: if_splits)
next
  case (Cons draw gen)
  show ?case
  proof (cases "i < n")
    case False
    with Cons.prems show ?thesis by (auto simp: ok_Status_OK code_Status_OK)
  next
    case True
    show ?thesis
    proof (cases "GenerateEvent_turn cfg arts execs store draw i st")
      case (Continue i1 st1)
      with True Cons.prems have
        w: "GenerateEvent_while cfg arts execs n store gen i1 st1 = Some (Returned status (st', gen'))"
        by simp
      from Cons.IH [OF w] obtain new where new:
        "put_request st' = put_request st1 @ new"
        "curr_bytes st' = curr_bytes st1 + 20 * int (length new)"
        "\<forall>e\<in>set new. \<exists>a x. e = foo_event (stamped_type cfg) a x"
        "ok status \<longrightarrow> int (length new) = max 0 (n - i1)"
        "code status \<noteq> ALREADY_EXISTS"
        by blast
      from GenerateEvent_turn_Continue_batch [OF Continue] show ?thesis
      proof
        assume "i1 = i \<and> put_request st1 = put_request st \<and> curr_bytes st1 = curr_bytes st"
        with new show ?thesis by auto
      next
        assume a: "i1 = i + 1 \<and> curr_bytes st1 = curr_bytes st + 20 \<and>
          (\<exists>a x. put_request st1 = put_request st @ [foo_event (stamped_type cfg) a x])"
        then obtain a x where pr: "put_request st1 = put_request st @ [foo_event (stamped_type cfg) a x]"
          by blast
        let ?new = "foo_event (stamped_type cfg) a x # new"
        have "put_request st' = put_request st @ ?new" using new(1) pr by simp
        moreover have "curr_bytes st' = curr_bytes st + 20 * int (length ?new)"
          using new(2) a by simp
        moreover have "\<forall>e\<in>set ?new. \<exists>a x. e = foo_event (stamped_type cfg) a x"
          using new(3) by auto
        moreover have "ok status \<longrightarrow> int (length ?new) = max 0 (n - i)"
          using new(4) a True by auto
        ultimately show ?thesis using new(5) by blast
      qed
    next
      case (Return status1 st1)
      with True Cons.prems have "status = status1" "st' = st1" by simp_all
      with GenerateEvent_turn_Return_batch [OF Return] show ?thesis by auto
    next
      case (Stop fatal)
      with True Cons.prems show ?thesis by simp
    qed
  qed
qed

subsection \<open>Run and TearDown\<close>

text \<open>
  C7. For every valid index, \<^verbatim>\<open>RunOpImpl\<close> hands exactly the stored batch of that index
  to the store's \<^verbatim>\<open>PutEvents\<close>, returns the status that the store answers, and leaves the
  workload object, its stored batches included, as it was.
\<close>

theorem RunOpImpl_dispatches_stored_batch:
  assumes "0 \<le> work_items_index" and "work_items_index < int (length (m_work_items this))"
  shows "RunOpImpl this work_items_index store s =
           Returned (fst (PutEvents store s (fst (m_work_items this ! nat work_items_index))))
             (this, snd (PutEvents store s (fst (m_work_items this ! nat work_items_index))))"
  using assms by (simp add: RunOpImpl_def Let_def split: prod.splits)

theorem RunOpImpl_dispatches_stored_batch_witness:
  "RunOpImpl
     ((FillEvents_new input_config 2)
        \<lparr>m_work_items := [([foo_event Event_INPUT 1 7], 20), ([foo_event Event_INPUT 2 8], 20)]\<rparr>)
     1 (db_store [] []) [foo_event Event_INPUT 1 7] =
   Returned Status_OK
     ((FillEvents_new input_config 2)
        \<lparr>m_work_items := [([foo_event Event_INPUT 1 7], 20), ([foo_event Event_INPUT 2 8], 20)]\<rparr>,
      [foo_event Event_INPUT 1 7, foo_event Event_INPUT 2 8])"
  using RunOpImpl_dispatches_stored_batch
    [of 1 "(FillEvents_new input_config 2)
        \<lparr>m_work_items := [([foo_event Event_INPUT 1 7], 20), ([foo_event Event_INPUT 2 8], 20)]\<rparr>"
        "db_store [] []" "[foo_event Event_INPUT 1 7]"]
  by (simp add: db_store_def)

text \<open>
  C8. \<^verbatim>\<open>TearDownImpl\<close> twice is \<^verbatim>\<open>TearDownImpl\<close> once: both calls return OK, and after
  one call as after two no work item is left.
\<close>

theorem TearDownImpl_idempotent:
  "TearDownImpl (snd (TearDownImpl this)) = TearDownImpl this \<and>
   fst (TearDownImpl this) = Status_OK \<and>
   fst (TearDownImpl (snd (TearDownImpl this))) = Status_OK \<and>
   m_work_items (snd (TearDownImpl this)) = [] \<and>
   m_work_items (snd (TearDownImpl (snd (TearDownImpl this)))) = []"
  by (simp add: TearDownImpl_def)

theorem TearDownImpl_idempotent_witness:
  "TearDownImpl (snd (TearDownImpl
      ((FillEvents_new input_config 1)\<lparr>m_work_items := [([foo_event Event_INPUT 1 7], 20)]\<rparr>))) =
   (Status_OK, FillEvents_new input_config 1)"
  using TearDownImpl_idempotent
    [of "(FillEvents_new input_config 1)\<lparr>m_work_items := [([foo_event Event_INPUT 1 7], 20)]\<rparr>"]
  by (simp add: TearDownImpl_def FillEvents_new_def)

subsection \<open>The batches that SetUp stores\<close>

lemma sum_list_GetTransferredBytes:
  assumes "\<forall>e\<in>set events. \<exists>a x. e = foo_event t a x"
  shows "sum_list (map GetTransferredBytes events) = 20 * int (length events)"
  using assms by (induction events) (auto simp: GetTransferredBytes_foo_event)

lemma GenerateEvent_batch:
  assumes "GenerateEvent cfg arts execs n store gen st = Some (Returned status (st', gen'))"
  shows "\<exists>new. put_request st' = put_request st @ new \<and>
           curr_bytes st' = curr_bytes st + 20 * int (length new) \<and>
           (\<forall>e\<in>set new. \<exists>a x. e = foo_event (stamped_type cfg) a x) \<and>
           (ok status \<longrightarrow> int (length new) = max 0 n) \<and>
           code status \<noteq> ALREADY_EXISTS"
  using GenerateEvent_while_batch [of cfg arts execs n store gen 0 st status st' gen'] assms
  by (simp add: GenerateEvent_def)

lemma SetUpImpl_for_batches:
  assumes "SetUpImpl_for this arts execs store nes gen i s = Some (Returned status (this', s'))"
  shows "\<exists>new. m_work_items this' = m_work_items this @ new \<and>
           length new \<le> length nes \<and>
           list_all2 (stored_batch (m_fill_events_config this)) (take (length new) nes) new \<and>
           (ok status \<longrightarrow> int (length new) = max 0 (m_num_operations this - i)) \<and>
           (\<not> ok status \<longrightarrow> int (length new) < m_num_operations this - i)"
  using assms
proof (induction nes arbitrary: this gen i s)
  case Nil
  then show ?case by (auto simp: ok_Status_OK split: if_splits)
next
  case (Cons n nes)
  let ?cfg = "m_fill_events_config this"
  let ?st0 = "\<lparr>output_artifact_ids = m_output_artifact_ids this, put_request = [],
               curr_bytes = 0, store_state = s\<rparr>"
  show ?case
  proof (cases "i < m_num_operations this")
    case False
    with Cons.prems show ?thesis by (auto simp: ok_Status_OK)
  next
    case True
    from True Cons.prems obtain status1 st gen1 where
      g: "GenerateEvent ?cfg arts execs n store gen ?st0 = Some (Returned status1 (st, gen1))"
      by (auto split: option.splits Outcome.splits)
    from GenerateEvent_batch [OF g] have
      b: "ok status1 \<longrightarrow> stored_batch ?cfg n (put_request st, curr_bytes st)"
      by (auto simp: stored_batch_def)
    show ?thesis
    proof (cases "ok status1")
      case False
      with True g Cons.prems have "status = status1"
        "this' = this\<lparr>m_output_artifact_ids := output_artifact_ids st\<rparr>"
        by simp_all
      with False True show ?thesis by simp
    next
      case ok1: True
      let ?this1 = "this\<lparr>m_output_artifact_ids := output_artifact_ids st,
                         m_work_items := m_work_items this @ [(put_request st, curr_bytes st)]\<rparr>"
      from ok1 True g Cons.prems have
        r: "SetUpImpl_for ?this1 arts execs store nes gen1 (i + 1) (store_state st) =
              Some (Returned status (this', s'))"
        by simp
      from Cons.IH [OF r] obtain new where new:
        "m_work_items this' = m_work_items ?this1 @ new"
        "length new \<le> length nes"
        "list_all2 (stored_batch ?cfg) (take (length new) nes) new"
        "ok status \<longrightarrow> int (length new) = max 0 (m_num_operations this - (i + 1))"
        "\<not> ok status \<longrightarrow> int (length new) < m_num_operations this - (i + 1)"
        by auto
      let ?new = "(put_request st, curr_bytes st) # new"
      have "m_work_items this' = m_work_items this @ ?new" using new(1) by simp
      moreover have "length ?new \<le> length (n # nes)" using new(2) by simp
      moreover have "list_all2 (stored_batch ?cfg) (take (length ?new) (n # nes)) ?new"
        using new(3) b ok1 by simp
      moreover have "ok status \<longrightarrow> int (length ?new) = max 0 (m_num_operations this - i)"
        using new(4) True by auto
      moreover have "\<not> ok status \<longrightarrow> int (length ?new) < m_num_operations this - i"
        using new(5) by auto
      ultimately show ?thesis by blast
    qed
  qed
qed

lemma SetUpImpl_batches:
  assumes "SetUpImpl this store nes gen s = Some (Returned status (this', s'))"
  shows "m_work_items this' = m_work_items this @ new_work_items this this' \<and>
         length (new_work_items this this') \<le> length nes \<and>
         list_all2 (stored_batch (m_fill_events_config this))
           (take (length (new_work_items this this')) nes) (new_work_items this this') \<and>
         (ok status \<longrightarrow> int (length (new_work_items this this')) = max 0 (m_num_operations this)) \<and>
         (\<not> ok status \<longrightarrow>
            new_work_items this this' = [] \<or>
            int (length (new_work_items this this')) < m_num_operations this)"
proof (cases "ok (fst (fst (GetExistingNodes store (m_fill_events_config this) s)))")
  case False
  with assms have "this' = this"
    by (auto simp: SetUpImpl_def split: prod.splits if_splits)
  moreover from False assms have "\<not> ok status"
    by (auto simp: SetUpImpl_def split: prod.splits if_splits)
  ultimately show ?thesis by (simp add: new_work_items_def)
next
  case True
  with assms obtain arts execs s1 where
    "SetUpImpl_for this arts execs store nes gen 0 s1 = Some (Returned status (this', s'))"
    by (auto simp: SetUpImpl_def split: prod.splits if_splits)
  from SetUpImpl_for_batches [OF this] obtain new where new:
    "m_work_items this' = m_work_items this @ new"
    "length new \<le> length nes"
    "list_all2 (stored_batch (m_fill_events_config this)) (take (length new) nes) new"
    "ok status \<longrightarrow> int (length new) = max 0 (m_num_operations this - 0)"
    "\<not> ok status \<longrightarrow> int (length new) < m_num_operations this - 0"
    by blast
  from new(1) have "new_work_items this this' = new" by (simp add: new_work_items_def)
  with new show ?thesis by simp
qed

lemma list_all2_stored_batch_lengths:
  assumes "list_all2 (stored_batch cfg) ns ws"
  shows "map (\<lambda>w. int (length (fst w))) ws = map (max 0) ns"
  using assms by (induction rule: list_all2_induct) (auto simp: stored_batch_def)

lemma list_all2_stored_batch_members:
  assumes "list_all2 (stored_batch cfg) ns ws" and "w \<in> set ws"
  shows "snd w = 20 * int (length (fst w)) \<and>
         (\<forall>e\<in>set (fst w). \<exists>a x. e = foo_event (stamped_type cfg) a x)"
  using assms by (induction rule: list_all2_induct) (auto simp: stored_batch_def)

text \<open>
  C3, as amended. Whatever \<^verbatim>\<open>SetUpImpl\<close> returns, every batch it has stored belongs to
  one operation, in order, and holds exactly as many events as \<^verbatim>\<open>num_events_dist\<close>
  returned for that operation when that number is not negative, and no event when it is
  negative; when \<^verbatim>\<open>SetUpImpl\<close> returns OK it has stored one batch for each operation.
  This holds for every configuration, population, store and sequence of draws.
\<close>

theorem SetUpImpl_batch_sizes:
  assumes "SetUpImpl this store nes gen s = Some (Returned status (this', s'))"
  shows "m_work_items this' = m_work_items this @ new_work_items this this' \<and>
         map (\<lambda>w. int (length (fst w))) (new_work_items this this') =
           map (max 0) (take (length (new_work_items this this')) nes) \<and>
         (ok status \<longrightarrow> int (length (new_work_items this this')) = max 0 (m_num_operations this))"
  using SetUpImpl_batches [OF assms] list_all2_stored_batch_lengths by blast

text \<open>
  The claim as the specification states it fails when the drawn number is negative: for a
  configured range from -1 to -1 the batch of the operation has no event, not -1 events.
\<close>

theorem SetUpImpl_batch_sizes_counterexample:
  "SetUpImpl (FillEvents_new negative_config 1) (db_store [Artifact 1] [Execution 7]) [- 1] [] [] =
     Some (Returned Status_OK ((FillEvents_new negative_config 1)\<lparr>m_work_items := [([], 0)]\<rparr>, [])) \<and>
   int (length (fst (([], 0) :: Event list \<times> int64))) \<noteq> - 1"
  by (simp add: SetUpImpl_def negative_config_def FillEvents_new_def db_store_def ok_def
        Status_OK_def GenerateEvent_def)

theorem SetUpImpl_batch_sizes_witness:
  "SetUpImpl (FillEvents_new input_config 2)
     (db_store [Artifact 1, Artifact 2, Artifact 3] [Execution 7, Execution 8, Execution 9])
     [2, 2] [(0, 0), (0, 1), (2, 2), (0, 0)] [] =
   Some (Returned Status_OK
     ((FillEvents_new input_config 2)
        \<lparr>m_work_items :=
           [([foo_event Event_INPUT 1 7, foo_event Event_INPUT 1 8], 40),
            ([foo_event Event_INPUT 3 9, foo_event Event_INPUT 1 7], 40)]\<rparr>, [])) \<and>
   map (\<lambda>w. int (length (fst w)))
     [([foo_event Event_INPUT 1 7, foo_event Event_INPUT 1 8], 40 :: int),
      ([foo_event Event_INPUT 3 9, foo_event Event_INPUT 1 7], 40)] = [2, 2]"
proof -
  have run: "SetUpImpl (FillEvents_new input_config 2)
     (db_store [Artifact 1, Artifact 2, Artifact 3] [Execution 7, Execution 8, Execution 9])
     [2, 2] [(0, 0), (0, 1), (2, 2), (0, 0)] [] =
   Some (Returned Status_OK
     ((FillEvents_new input_config 2)
        \<lparr>m_work_items :=
           [([foo_event Event_INPUT 1 7, foo_event Event_INPUT 1 8], 40),
            ([foo_event Event_INPUT 3 9, foo_event Event_INPUT 1 7], 40)]\<rparr>, []))"
    by code_simp
  from SetUpImpl_batch_sizes [OF run] show ?thesis
    using run by (simp add: new_work_items_def FillEvents_new_def)
qed

text \<open>
  C5. In every batch that \<^verbatim>\<open>SetUpImpl\<close> stores, the byte estimate stored with the batch
  is the sum of \<^verbatim>\<open>GetTransferredBytes\<close> over the events of the batch; each event has the
  single path step with key \<^verbatim>\<open>foo\<close>, and its estimate is 17 plus the length of that key,
  hence at least 17.
\<close>

theorem SetUpImpl_byte_estimates:
  assumes "SetUpImpl this store nes gen s = Some (Returned status (this', s'))"
  shows "\<forall>w\<in>set (new_work_items this this').
           snd w = sum_list (map GetTransferredBytes (fst w)) \<and>
           (\<forall>e\<in>set (fst w).
              path e = [Step_key ''foo''] \<and>
              GetTransferredBytes e = 17 + int (length (key (hd (path e)))) \<and>
              17 \<le> GetTransferredBytes e)"
proof
  fix w assume w: "w \<in> set (new_work_items this this')"
  from SetUpImpl_batches [OF assms] have
    "list_all2 (stored_batch (m_fill_events_config this))
       (take (length (new_work_items this this')) nes) (new_work_items this this')"
    by blast
  from list_all2_stored_batch_members [OF this w] have
    bytes: "snd w = 20 * int (length (fst w))" and
    events: "\<forall>e\<in>set (fst w). \<exists>a x. e = foo_event (stamped_type (m_fill_events_config this)) a x"
    by blast+
  from events have "snd w = sum_list (map GetTransferredBytes (fst w))"
    using bytes by (simp add: sum_list_GetTransferredBytes)
  moreover have "path e = [Step_key ''foo''] \<and>
      GetTransferredBytes e = 17 + int (length (key (hd (path e)))) \<and>
      17 \<le> GetTransferredBytes e" if "e \<in> set (fst w)" for e
  proof -
    from events that obtain a x where
      e: "e = foo_event (stamped_type (m_fill_events_config this)) a x" by blast
    have "path e = [Step_key ''foo'']" by (simp add: e foo_event_def)
    then show ?thesis by (simp add: e GetTransferredBytes_foo_event)
  qed
  ultimately show "snd w = sum_list (map GetTransferredBytes (fst w)) \<and>
           (\<forall>e\<in>set (fst w).
              path e = [Step_key ''foo''] \<and>
              GetTransferredBytes e = 17 + int (length (key (hd (path e)))) \<and>
              17 \<le> GetTransferredBytes e)"
    by blast
qed

theorem SetUpImpl_byte_estimates_witness:
  "SetUpImpl (FillEvents_new output_config 1) (db_store [Artifact 1, Artifact 2] [Execution 7])
     [2] [(0, 0), (0, 0), (1, 0)] [] =
   Some (Returned Status_OK
     ((FillEvents_new output_config 1)
        \<lparr>m_work_items := [([foo_event Event_OUTPUT 1 7, foo_event Event_OUTPUT 2 7], 40)],
          m_output_artifact_ids := {1, 2}\<rparr>, [])) \<and>
   (40 :: int) =
     GetTransferredBytes (foo_event Event_OUTPUT 1 7) + GetTransferredBytes (foo_event Event_OUTPUT 2 7) \<and>
   GetTransferredBytes (foo_event Event_OUTPUT 1 7) = 17 + 3 \<and>
   GetTransferredBytes (foo_event Event_OUTPUT 2 7) = 17 + 3"
proof -
  have run: "SetUpImpl (FillEvents_new output_config 1)
     (db_store [Artifact 1, Artifact 2] [Execution 7]) [2] [(0, 0), (0, 0), (1, 0)] [] =
   Some (Returned Status_OK
     ((FillEvents_new output_config 1)
        \<lparr>m_work_items := [([foo_event Event_OUTPUT 1 7, foo_event Event_OUTPUT 2 7], 40)],
          m_output_artifact_ids := {1, 2}\<rparr>, []))"
    by code_simp
  from SetUpImpl_byte_estimates [OF run] show ?thesis
    using run by (simp add: new_work_items_def FillEvents_new_def foo_event_def)
qed


subsection \<open>The checks of an OUTPUT candidate\<close>

lemma snd_CheckDuplicateOutputArtifactInDb:
  "snd (CheckDuplicateOutputArtifactInDb a store s) = snd (GetEventsByArtifactIDs store s [a])"
  by (simp add: CheckDuplicateOutputArtifactInDb_def split: prod.splits)

lemma fst_CheckDuplicateOutputArtifactInDb:
  "fst (CheckDuplicateOutputArtifactInDb a store s) =
     (if \<not> ok (fst (fst (GetEventsByArtifactIDs store s [a])))
      then fst (fst (GetEventsByArtifactIDs store s [a]))
      else scan_response_events (snd (fst (GetEventsByArtifactIDs store s [a]))))"
  by (simp add: CheckDuplicateOutputArtifactInDb_def split: prod.splits)

lemma ok_scan_response_events:
  "ok (scan_response_events events) = (\<forall>e\<in>set events. event_type e \<noteq> Event_OUTPUT)"
  by (induction events) (auto simp: ok_def Status_OK_def AlreadyExists_def)

lemma scan_response_events_code:
  "\<not> ok (scan_response_events events) \<Longrightarrow> code (scan_response_events events) = ALREADY_EXISTS"
  by (induction events) (auto simp: ok_def Status_OK_def AlreadyExists_def split: if_splits)

lemma code_ALREADY_EXISTS_not_ok: "code status = ALREADY_EXISTS \<Longrightarrow> \<not> ok status"
  by (simp add: ok_def)

lemma faithful_store_check:
  assumes "faithful_store store persisted"
  shows "ok (fst (CheckDuplicateOutputArtifactInDb a store s)) = (output_events_on a (persisted s) = [])"
    and "persisted (snd (CheckDuplicateOutputArtifactInDb a store s)) = persisted s"
proof -
  from assms have q: "fst (GetEventsByArtifactIDs store s [a]) =
      (Status_OK, filter (\<lambda>e. artifact_id e = a) (persisted s))"
    by (simp add: faithful_store_def)
  show "ok (fst (CheckDuplicateOutputArtifactInDb a store s)) = (output_events_on a (persisted s) = [])"
    by (auto simp: fst_CheckDuplicateOutputArtifactInDb q ok_Status_OK ok_scan_response_events
          output_events_on_def filter_empty_conv)
  from assms show "persisted (snd (CheckDuplicateOutputArtifactInDb a store s)) = persisted s"
    by (simp add: snd_CheckDuplicateOutputArtifactInDb faithful_store_def)
qed

lemma check_output_candidate_eq:
  "check_output_candidate cfg store a x i st =
     (if \<not> ok (fst (CheckDuplicateOutputArtifactInDb a store (store_state st))) \<and>
         code (fst (CheckDuplicateOutputArtifactInDb a store (store_state st))) \<noteq> ALREADY_EXISTS
      then Return (fst (CheckDuplicateOutputArtifactInDb a store (store_state st)))
             (st\<lparr>output_artifact_ids := insert a (output_artifact_ids st),
                 store_state := snd (CheckDuplicateOutputArtifactInDb a store (store_state st))\<rparr>)
      else if a \<in> output_artifact_ids st \<or>
              \<not> ok (fst (CheckDuplicateOutputArtifactInDb a store (store_state st)))
      then Continue i
             (st\<lparr>output_artifact_ids := insert a (output_artifact_ids st),
                 store_state := snd (CheckDuplicateOutputArtifactInDb a store (store_state st))\<rparr>)
      else accept_candidate cfg a x i
             (st\<lparr>output_artifact_ids := insert a (output_artifact_ids st),
                 store_state := snd (CheckDuplicateOutputArtifactInDb a store (store_state st))\<rparr>))"
  by (simp add: check_output_candidate_def CheckDuplicateOutputArtifactInCurrentSetUp_eq Let_def
        split: prod.splits)

lemma check_output_candidate_failure:
  assumes "\<not> ok (fst (fst (GetEventsByArtifactIDs store (store_state st) [a])))"
    and "code (fst (fst (GetEventsByArtifactIDs store (store_state st) [a]))) \<noteq> ALREADY_EXISTS"
  shows "check_output_candidate cfg store a x i st =
           Return (fst (fst (GetEventsByArtifactIDs store (store_state st) [a])))
             (st\<lparr>output_artifact_ids := insert a (output_artifact_ids st),
                 store_state := snd (GetEventsByArtifactIDs store (store_state st) [a])\<rparr>)"
proof -
  from assms(1) have "fst (CheckDuplicateOutputArtifactInDb a store (store_state st)) =
      fst (fst (GetEventsByArtifactIDs store (store_state st) [a]))"
    by (simp add: fst_CheckDuplicateOutputArtifactInDb)
  with assms show ?thesis
    by (simp add: check_output_candidate_eq snd_CheckDuplicateOutputArtifactInDb)
qed

lemma GenerateEvent_turn_OUTPUT_eq:
  assumes "config_specification cfg = FillEventsConfig_OUTPUT"
    and "get_Artifact_id arts (fst draw) = Inr a"
    and "get_Execution_id execs (snd draw) = Inr x"
  shows "GenerateEvent_turn cfg arts execs store draw i st =
           check_output_candidate cfg store a x i st"
  using assms by (simp add: GenerateEvent_turn_def)

lemma turn_state_check_output_candidate:
  assumes "turn_state (check_output_candidate cfg store a x i st) = Some st1"
  shows "output_artifact_ids st1 = insert a (output_artifact_ids st) \<and>
         store_state st1 = snd (GetEventsByArtifactIDs store (store_state st) [a])"
proof (cases "check_output_candidate cfg store a x i st")
  case (Continue i1 st2)
  with assms have "st2 = st1" by simp
  with check_output_candidate_Continue [OF Continue] show ?thesis
    by (auto simp: snd_CheckDuplicateOutputArtifactInDb)
next
  case (Return status st2)
  with assms have "st2 = st1" by simp
  with check_output_candidate_Return [OF Return] show ?thesis
    by (auto simp: snd_CheckDuplicateOutputArtifactInDb)
next
  case (Stop fatal)
  with assms show ?thesis by simp
qed

lemma GenerateEvent_turn_Continue_OUTPUT:
  assumes "GenerateEvent_turn cfg arts execs store draw i st = Continue i' st'"
    and "config_specification cfg = FillEventsConfig_OUTPUT"
  shows "\<exists>a x. get_Artifact_id arts (fst draw) = Inr a \<and>
           get_Execution_id execs (snd draw) = Inr x \<and>
           output_artifact_ids st' = insert a (output_artifact_ids st) \<and>
           store_state st' = snd (CheckDuplicateOutputArtifactInDb a store (store_state st)) \<and>
           ((i' = i \<and> put_request st' = put_request st \<and>
             (a \<in> output_artifact_ids st \<or>
              code (fst (CheckDuplicateOutputArtifactInDb a store (store_state st))) = ALREADY_EXISTS)) \<or>
            (i' = i + 1 \<and> a \<notin> output_artifact_ids st \<and>
             ok (fst (CheckDuplicateOutputArtifactInDb a store (store_state st))) \<and>
             put_request st' = put_request st @ [foo_event Event_OUTPUT a x]))"
proof -
  from GenerateEvent_turn_Continue [OF assms(1)] assms(2) obtain a x where
    ids: "get_Artifact_id arts (fst draw) = Inr a" "get_Execution_id execs (snd draw) = Inr x" and
    c: "check_output_candidate cfg store a x i st = Continue i' st'"
    by auto
  have t: "stamped_type cfg = Event_OUTPUT" using assms(2) by (simp add: stamped_type_def)
  from check_output_candidate_Continue [OF c] show ?thesis
  proof
    assume "i' = i \<and>
      (a \<in> output_artifact_ids st \<or>
       code (fst (CheckDuplicateOutputArtifactInDb a store (store_state st))) = ALREADY_EXISTS) \<and>
      st' = st\<lparr>output_artifact_ids := insert a (output_artifact_ids st),
               store_state := snd (CheckDuplicateOutputArtifactInDb a store (store_state st))\<rparr>"
    with ids show ?thesis by simp
  next
    assume "i' = i + 1 \<and> i \<noteq> INT_MAX \<and> a \<notin> output_artifact_ids st \<and>
      ok (fst (CheckDuplicateOutputArtifactInDb a store (store_state st))) \<and>
      st' = st\<lparr>output_artifact_ids := insert a (output_artifact_ids st),
               store_state := snd (CheckDuplicateOutputArtifactInDb a store (store_state st)),
               put_request := put_request st @ [foo_event (stamped_type cfg) a x],
               curr_bytes := curr_bytes st + 20\<rparr>"
    with ids t show ?thesis by simp
  qed
qed

lemma GenerateEvent_turn_Return_OUTPUT:
  assumes "GenerateEvent_turn cfg arts execs store draw i st = Return status st'"
  shows "\<exists>a x. get_Artifact_id arts (fst draw) = Inr a \<and>
           get_Execution_id execs (snd draw) = Inr x \<and>
           output_artifact_ids st' = insert a (output_artifact_ids st) \<and>
           store_state st' = snd (CheckDuplicateOutputArtifactInDb a store (store_state st)) \<and>
           put_request st' = put_request st"
proof -
  from GenerateEvent_turn_Return [OF assms] obtain a x where
    ids: "get_Artifact_id arts (fst draw) = Inr a" "get_Execution_id execs (snd draw) = Inr x" and
    c: "check_output_candidate cfg store a x i st = Return status st'"
    by blast
  from check_output_candidate_Return [OF c] ids show ?thesis by simp
qed


subsection \<open>At most one OUTPUT event for an artifact\<close>

lemma fresh_outputs_Nil: "ids \<subseteq> ids' \<Longrightarrow> fresh_outputs ids ids' []"
  by (simp add: fresh_outputs_def)

lemma fresh_outputs_subset: "fresh_outputs ids ids' new \<Longrightarrow> ids \<subseteq> ids'"
  by (simp add: fresh_outputs_def)

lemma fresh_outputs_step:
  assumes "fresh_outputs (insert a ids) ids' new"
  shows "fresh_outputs ids ids' new"
  using assms by (auto simp: fresh_outputs_def)

lemma fresh_outputs_Cons:
  assumes "fresh_outputs (insert a ids) ids' new" and "a \<notin> ids"
  shows "fresh_outputs ids ids' (foo_event Event_OUTPUT a x # new)"
  using assms by (auto simp: fresh_outputs_def foo_event_def)

lemma fresh_outputs_append:
  assumes "fresh_outputs ids ids1 new1" and "fresh_outputs ids1 ids2 new2"
  shows "fresh_outputs ids ids2 (new1 @ new2)"
proof -
  from assms have a: "artifact_id ` set new1 \<subseteq> ids1" "artifact_id ` set new2 \<inter> ids1 = {}"
    by (simp_all add: fresh_outputs_def)
  then have "artifact_id ` set new1 \<inter> artifact_id ` set new2 = {}" by blast
  moreover from assms have "artifact_id ` set new2 \<inter> ids = {}" "ids \<subseteq> ids2"
    "artifact_id ` set new1 \<subseteq> ids2"
    by (auto simp: fresh_outputs_def)
  ultimately show ?thesis using assms
    by (simp add: fresh_outputs_def image_Un Int_Un_distrib2 ball_Un)
qed

lemma GenerateEvent_while_OUTPUT:
  assumes "GenerateEvent_while cfg arts execs n store gen i st = Some (Returned status (st', gen'))"
    and "config_specification cfg = FillEventsConfig_OUTPUT"
  shows "\<exists>new. put_request st' = put_request st @ new \<and>
           fresh_outputs (output_artifact_ids st) (output_artifact_ids st') new \<and>
           (faithful_store store persisted \<longrightarrow>
              persisted (store_state st') = persisted (store_state st) \<and>
              (\<forall>e\<in>set new. output_events_on (artifact_id e) (persisted (store_state st)) = []))"
  using assms(1)
proof (induction gen arbitrary: i st)
  case Nil
  then show ?case by (auto simp: fresh_outputs_Nil split: if_splits)
next
  case (Cons draw gen)
  show ?case
  proof (cases "i < n")
    case False
    with Cons.prems show ?thesis by (auto simp: fresh_outputs_Nil)
  next
    case True
    show ?thesis
    proof (cases "GenerateEvent_turn cfg arts execs store draw i st")
      case (Continue i1 st1)
      with True Cons.prems have
        w: "GenerateEvent_while cfg arts execs n store gen i1 st1 = Some (Returned status (st', gen'))"
        by simp
      from Cons.IH [OF w] obtain new where new:
        "put_request st' = put_request st1 @ new"
        "fresh_outputs (output_artifact_ids st1) (output_artifact_ids st') new"
        "faithful_store store persisted \<longrightarrow>
           persisted (store_state st') = persisted (store_state st1) \<and>
           (\<forall>e\<in>set new. output_events_on (artifact_id e) (persisted (store_state st1)) = [])"
        by blast
      from GenerateEvent_turn_Continue_OUTPUT [OF Continue assms(2)] obtain a x where
        ids: "output_artifact_ids st1 = insert a (output_artifact_ids st)" and
        ss: "store_state st1 = snd (CheckDuplicateOutputArtifactInDb a store (store_state st))" and
        alt: "(i1 = i \<and> put_request st1 = put_request st) \<or>
              (a \<notin> output_artifact_ids st \<and>
               ok (fst (CheckDuplicateOutputArtifactInDb a store (store_state st))) \<and>
               put_request st1 = put_request st @ [foo_event Event_OUTPUT a x])"
        by blast
      have p: "faithful_store store persisted \<Longrightarrow>
          persisted (store_state st1) = persisted (store_state st)"
        using faithful_store_check(2) [of store persisted a "store_state st"] ss by simp
      from alt show ?thesis
      proof
        assume "i1 = i \<and> put_request st1 = put_request st"
        then have "put_request st' = put_request st @ new" using new(1) by simp
        moreover have "fresh_outputs (output_artifact_ids st) (output_artifact_ids st') new"
          using new(2) ids fresh_outputs_step by simp
        ultimately show ?thesis using new(3) p by auto
      next
        assume acc: "a \<notin> output_artifact_ids st \<and>
               ok (fst (CheckDuplicateOutputArtifactInDb a store (store_state st))) \<and>
               put_request st1 = put_request st @ [foo_event Event_OUTPUT a x]"
        let ?new = "foo_event Event_OUTPUT a x # new"
        have "put_request st' = put_request st @ ?new" using new(1) acc by simp
        moreover have "fresh_outputs (output_artifact_ids st) (output_artifact_ids st') ?new"
          using new(2) ids acc fresh_outputs_Cons by simp
        moreover have "faithful_store store persisted \<longrightarrow>
              persisted (store_state st') = persisted (store_state st) \<and>
              (\<forall>e\<in>set ?new. output_events_on (artifact_id e) (persisted (store_state st)) = [])"
        proof
          assume f: "faithful_store store persisted"
          from faithful_store_check(1) [OF f, of a "store_state st"] acc
          have "output_events_on a (persisted (store_state st)) = []" by simp
          then show "persisted (store_state st') = persisted (store_state st) \<and>
              (\<forall>e\<in>set ?new. output_events_on (artifact_id e) (persisted (store_state st)) = [])"
            using new(3) p [OF f] f by (simp add: foo_event_def)
        qed
        ultimately show ?thesis by blast
      qed
    next
      case (Return status1 st1)
      with True Cons.prems have eq: "status = status1" "st' = st1" by simp_all
      from GenerateEvent_turn_Return_OUTPUT [OF Return] obtain a where
        ids: "output_artifact_ids st1 = insert a (output_artifact_ids st)" and
        ss: "store_state st1 = snd (CheckDuplicateOutputArtifactInDb a store (store_state st))" and
        pr: "put_request st1 = put_request st"
        by blast
      have "faithful_store store persisted \<Longrightarrow>
          persisted (store_state st1) = persisted (store_state st)"
        using faithful_store_check(2) [of store persisted a "store_state st"] ss by simp
      with eq ids pr show ?thesis by (auto simp: fresh_outputs_def)
    next
      case (Stop fatal)
      with True Cons.prems show ?thesis by simp
    qed
  qed
qed

lemma GenerateEvent_OUTPUT:
  assumes "GenerateEvent cfg arts execs n store gen st = Some (Returned status (st', gen'))"
    and "config_specification cfg = FillEventsConfig_OUTPUT"
  shows "\<exists>new. put_request st' = put_request st @ new \<and>
           fresh_outputs (output_artifact_ids st) (output_artifact_ids st') new \<and>
           (faithful_store store persisted \<longrightarrow>
              persisted (store_state st') = persisted (store_state st) \<and>
              (\<forall>e\<in>set new. output_events_on (artifact_id e) (persisted (store_state st)) = []))"
  using GenerateEvent_while_OUTPUT [of cfg arts execs n store gen 0 st status st' gen' persisted] assms
  by (simp add: GenerateEvent_def)

lemma SetUpImpl_for_OUTPUT:
  assumes "SetUpImpl_for this arts execs store nes gen i s = Some (Returned status (this', s'))"
    and "config_specification (m_fill_events_config this) = FillEventsConfig_OUTPUT"
  shows "\<exists>new. m_work_items this' = m_work_items this @ new \<and>
           fresh_outputs (m_output_artifact_ids this) (m_output_artifact_ids this')
             (concat (map fst new)) \<and>
           (faithful_store store persisted \<longrightarrow>
              persisted s' = persisted s \<and>
              (\<forall>e\<in>set (concat (map fst new)).
                 output_events_on (artifact_id e) (persisted s) = []))"
  using assms
proof (induction nes arbitrary: this gen i s)
  case Nil
  then show ?case by (auto simp: fresh_outputs_Nil split: if_splits)
next
  case (Cons n nes)
  let ?cfg = "m_fill_events_config this"
  let ?st0 = "\<lparr>output_artifact_ids = m_output_artifact_ids this, put_request = [],
               curr_bytes = 0, store_state = s\<rparr>"
  show ?case
  proof (cases "i < m_num_operations this")
    case False
    with Cons.prems show ?thesis by (auto simp: fresh_outputs_Nil)
  next
    case True
    from True Cons.prems obtain status1 st gen1 where
      g: "GenerateEvent ?cfg arts execs n store gen ?st0 = Some (Returned status1 (st, gen1))"
      by (auto split: option.splits Outcome.splits)
    from GenerateEvent_OUTPUT [OF g Cons.prems(2), of persisted] obtain batch where batch:
      "put_request st = batch"
      "fresh_outputs (m_output_artifact_ids this) (output_artifact_ids st) batch"
      "faithful_store store persisted \<longrightarrow>
         persisted (store_state st) = persisted s \<and>
         (\<forall>e\<in>set batch. output_events_on (artifact_id e) (persisted s) = [])"
      by auto
    show ?thesis
    proof (cases "ok status1")
      case False
      with True g Cons.prems have r: "status = status1"
        "this' = this\<lparr>m_output_artifact_ids := output_artifact_ids st\<rparr>"
        "s' = store_state st"
        by simp_all
      have "m_work_items this' = m_work_items this @ []" using r by simp
      moreover have "fresh_outputs (m_output_artifact_ids this) (m_output_artifact_ids this')
          (concat (map fst []))"
        using r fresh_outputs_subset [OF batch(2)] by (simp add: fresh_outputs_Nil)
      moreover have "faithful_store store persisted \<longrightarrow>
              persisted s' = persisted s \<and>
              (\<forall>e\<in>set (concat (map fst [])).
                 output_events_on (artifact_id e) (persisted s) = [])"
        using batch(3) r by simp
      ultimately show ?thesis by blast
    next
      case ok1: True
      let ?this1 = "this\<lparr>m_output_artifact_ids := output_artifact_ids st,
                         m_work_items := m_work_items this @ [(put_request st, curr_bytes st)]\<rparr>"
      from ok1 True g Cons.prems have
        r: "SetUpImpl_for ?this1 arts execs store nes gen1 (i + 1) (store_state st) =
              Some (Returned status (this', s'))"
        by simp
      have cfg1: "config_specification (m_fill_events_config ?this1) = FillEventsConfig_OUTPUT"
        using Cons.prems(2) by simp
      from Cons.IH [OF r cfg1] obtain new where new:
        "m_work_items this' = m_work_items ?this1 @ new"
        "fresh_outputs (output_artifact_ids st) (m_output_artifact_ids this')
           (concat (map fst new))"
        "faithful_store store persisted \<longrightarrow>
           persisted s' = persisted (store_state st) \<and>
           (\<forall>e\<in>set (concat (map fst new)).
              output_events_on (artifact_id e) (persisted (store_state st)) = [])"
        by auto
      let ?new = "(put_request st, curr_bytes st) # new"
      have "m_work_items this' = m_work_items this @ ?new" using new(1) by simp
      moreover have "fresh_outputs (m_output_artifact_ids this) (m_output_artifact_ids this')
          (concat (map fst ?new))"
        using fresh_outputs_append [OF batch(2) new(2)] batch(1) by simp
      moreover have "faithful_store store persisted \<longrightarrow>
              persisted s' = persisted s \<and>
              (\<forall>e\<in>set (concat (map fst ?new)).
                 output_events_on (artifact_id e) (persisted s) = [])"
        using batch(1,3) new(3) by auto
      ultimately show ?thesis by blast
    qed
  qed
qed

lemma SetUpImpl_OUTPUT:
  assumes "SetUpImpl this store nes gen s = Some (Returned status (this', s'))"
    and "config_specification (m_fill_events_config this) = FillEventsConfig_OUTPUT"
  shows "fresh_outputs (m_output_artifact_ids this) (m_output_artifact_ids this')
           (concat (map fst (new_work_items this this'))) \<and>
         (faithful_store store persisted \<longrightarrow>
            (\<forall>e\<in>set (concat (map fst (new_work_items this this'))).
               output_events_on (artifact_id e) (persisted s) = []))"
proof (cases "ok (fst (fst (GetExistingNodes store (m_fill_events_config this) s)))")
  case False
  with assms have "this' = this"
    by (auto simp: SetUpImpl_def split: prod.splits if_splits)
  then show ?thesis by (simp add: new_work_items_def fresh_outputs_Nil)
next
  case True
  with assms obtain arts execs where
    r: "SetUpImpl_for this arts execs store nes gen 0
          (snd (GetExistingNodes store (m_fill_events_config this) s)) =
        Some (Returned status (this', s'))"
    by (auto simp: SetUpImpl_def split: prod.splits if_splits)
  from SetUpImpl_for_OUTPUT [OF r assms(2), of persisted] obtain new where new:
    "m_work_items this' = m_work_items this @ new"
    "fresh_outputs (m_output_artifact_ids this) (m_output_artifact_ids this')
       (concat (map fst new))"
    "faithful_store store persisted \<longrightarrow>
       (\<forall>e\<in>set (concat (map fst new)).
          output_events_on (artifact_id e)
            (persisted (snd (GetExistingNodes store (m_fill_events_config this) s))) = [])"
    by blast
  from new(1) have n: "new_work_items this this' = new" by (simp add: new_work_items_def)
  have "faithful_store store persisted \<Longrightarrow>
      persisted (snd (GetExistingNodes store (m_fill_events_config this) s)) = persisted s"
    by (simp add: faithful_store_def)
  with new n show ?thesis by auto
qed

lemma distinct_map_filter_le_1:
  assumes "distinct (map f xs)"
  shows "length (filter (\<lambda>e. f e = a) xs) \<le> 1"
  using assms
proof (induction xs)
  case Nil
  then show ?case by simp
next
  case (Cons y ys)
  show ?case
  proof (cases "f y = a")
    case True
    with Cons.prems have "a \<notin> f ` set ys" by simp
    then have "\<forall>e\<in>set ys. f e \<noteq> a" by blast
    then have "filter (\<lambda>e. f e = a) ys = []" by (simp add: filter_empty_conv)
    with True show ?thesis by simp
  next
    case False
    with Cons show ?thesis by simp
  qed
qed

lemma output_events_on_fresh:
  assumes "fresh_outputs ids ids' new"
  shows "length (output_events_on a new) \<le> 1"
proof -
  from assms have d: "distinct (map artifact_id new)" by (simp add: fresh_outputs_def)
  have "output_events_on a new =
      filter (\<lambda>e. event_type e = Event_OUTPUT) (filter (\<lambda>e. artifact_id e = a) new)"
    by (simp add: output_events_on_def conj_commute)
  moreover have "length (filter (\<lambda>e. event_type e = Event_OUTPUT) (filter (\<lambda>e. artifact_id e = a) new))
      \<le> length (filter (\<lambda>e. artifact_id e = a) new)"
    by (rule length_filter_le)
  ultimately have "length (output_events_on a new) \<le> length (filter (\<lambda>e. artifact_id e = a) new)"
    by simp
  with distinct_map_filter_le_1 [OF d, of a] show ?thesis by linarith
qed

text \<open>
  C2. In a run configured with OUTPUT, against a store whose query reports the persisted
  events faithfully, every artifact that at most one persisted OUTPUT event references
  before the run is referenced by at most one OUTPUT event among the events of all
  batches that \<^verbatim>\<open>SetUpImpl\<close> generated together with the persisted events. This holds
  whatever status \<^verbatim>\<open>SetUpImpl\<close> returns.
\<close>

theorem SetUpImpl_at_most_one_OUTPUT:
  assumes "config_specification (m_fill_events_config this) = FillEventsConfig_OUTPUT"
    and "faithful_store store persisted"
    and "length (output_events_on a (persisted s)) \<le> 1"
    and "SetUpImpl this store nes gen s = Some (Returned status (this', s'))"
  shows "length (output_events_on a (concat (map fst (new_work_items this this')) @ persisted s)) \<le> 1"
proof -
  let ?generated = "concat (map fst (new_work_items this this'))"
  from SetUpImpl_OUTPUT [OF assms(4) assms(1), of persisted] assms(2) have
    fresh: "fresh_outputs (m_output_artifact_ids this) (m_output_artifact_ids this') ?generated" and
    unused: "\<forall>e\<in>set ?generated. output_events_on (artifact_id e) (persisted s) = []"
    by blast+
  have split: "output_events_on a (?generated @ persisted s) =
      output_events_on a ?generated @ output_events_on a (persisted s)"
    by (simp add: output_events_on_def)
  show ?thesis
  proof (cases "output_events_on a ?generated = []")
    case True
    with split assms(3) show ?thesis by simp
  next
    case False
    then obtain e where "e \<in> set ?generated" "artifact_id e = a"
      by (auto simp: output_events_on_def filter_empty_conv)
    with unused have "output_events_on a (persisted s) = []" by blast
    with split output_events_on_fresh [OF fresh, of a] show ?thesis by simp
  qed
qed

theorem SetUpImpl_at_most_one_OUTPUT_witness:
  "faithful_store persisting (\<lambda>s. s) \<and>
   SetUpImpl (FillEvents_new output_config 1) persisting [1] [(0, 0), (1, 0)]
     [foo_event Event_OUTPUT 1 9] =
   Some (Returned Status_OK
     ((FillEvents_new output_config 1)
        \<lparr>m_work_items := [([foo_event Event_OUTPUT 2 7], 20)], m_output_artifact_ids := {1, 2}\<rparr>,
      [foo_event Event_OUTPUT 1 9])) \<and>
   length (output_events_on 1 ([foo_event Event_OUTPUT 2 7] @ [foo_event Event_OUTPUT 1 9])) = 1 \<and>
   length (output_events_on 2 ([foo_event Event_OUTPUT 2 7] @ [foo_event Event_OUTPUT 1 9])) = 1"
proof -
  have cfg: "config_specification (m_fill_events_config (FillEvents_new output_config 1)) =
      FillEventsConfig_OUTPUT"
    by code_simp
  have faithful: "faithful_store persisting (\<lambda>s. s)"
    by (simp add: faithful_store_def persisting_def db_store_def Status_OK_def)
  have inv: "length (output_events_on 1 [foo_event Event_OUTPUT 1 9]) \<le> 1"
    by (simp add: output_events_on_def)
  have run: "SetUpImpl (FillEvents_new output_config 1) persisting [1] [(0, 0), (1, 0)]
     [foo_event Event_OUTPUT 1 9] =
   Some (Returned Status_OK
     ((FillEvents_new output_config 1)
        \<lparr>m_work_items := [([foo_event Event_OUTPUT 2 7], 20)], m_output_artifact_ids := {1, 2}\<rparr>,
      [foo_event Event_OUTPUT 1 9]))"
    by code_simp
  have e1: "length (output_events_on 1 ([foo_event Event_OUTPUT 2 7] @ [foo_event Event_OUTPUT 1 9])) = 1"
    and e2: "length (output_events_on 2 ([foo_event Event_OUTPUT 2 7] @ [foo_event Event_OUTPUT 1 9])) = 1"
    by (simp_all add: output_events_on_def foo_event_def)
  from SetUpImpl_at_most_one_OUTPUT [OF cfg faithful inv run]
  show ?thesis using faithful run e1 e2 by simp
qed


subsection \<open>Rejection and failure in an OUTPUT run\<close>

lemma GenerateEvent_while_used_artifact:
  assumes "GenerateEvent_while cfg arts execs n store gen i st = Some (Returned status (st', gen'))"
    and "config_specification cfg = FillEventsConfig_OUTPUT"
    and "a \<in> output_artifact_ids st"
  shows "a \<in> output_artifact_ids st' \<and>
         (\<exists>new. put_request st' = put_request st @ new \<and> a \<notin> artifact_id ` set new)"
proof -
  from GenerateEvent_while_OUTPUT [OF assms(1,2), of "\<lambda>s. []"] obtain new where
    "put_request st' = put_request st @ new"
    "fresh_outputs (output_artifact_ids st) (output_artifact_ids st') new"
    by blast
  with assms(3) show ?thesis by (auto simp: fresh_outputs_def)
qed

lemma SetUpImpl_for_used_artifact:
  assumes "SetUpImpl_for this arts execs store nes gen i s = Some (Returned status (this', s'))"
    and "config_specification (m_fill_events_config this) = FillEventsConfig_OUTPUT"
    and "a \<in> m_output_artifact_ids this"
  shows "a \<in> m_output_artifact_ids this' \<and>
         a \<notin> artifact_id ` set (concat (map fst (new_work_items this this')))"
proof -
  from SetUpImpl_for_OUTPUT [OF assms(1,2), of "\<lambda>s. []"] obtain new where new:
    "m_work_items this' = m_work_items this @ new"
    "fresh_outputs (m_output_artifact_ids this) (m_output_artifact_ids this') (concat (map fst new))"
    by blast
  from new(1) have "new_work_items this this' = new" by (simp add: new_work_items_def)
  with new(2) assms(3) show ?thesis unfolding fresh_outputs_def by blast
qed

lemma SetUpImpl_for_failed_batch:
  assumes "i < m_num_operations this"
    and "GenerateEvent (m_fill_events_config this) arts execs n store gen
           (gen_state_0 (m_output_artifact_ids this) s) = Some (Returned status (st, gen'))"
    and "\<not> ok status"
  shows "SetUpImpl_for this arts execs store (n # nes) gen i s =
           Some (Returned status
             (this\<lparr>m_output_artifact_ids := output_artifact_ids st\<rparr>, store_state st))"
  using assms by (simp add: gen_state_0_def)

lemma SetUpImpl_for_work_items:
  assumes "SetUpImpl_for this arts execs store nes gen i s = Some (Returned status (this', s'))"
  shows "m_work_items this' = m_work_items this @ new_work_items this this'"
proof -
  from SetUpImpl_for_batches [OF assms] obtain new where
    "m_work_items this' = m_work_items this @ new" by blast
  then show ?thesis by (simp add: new_work_items_def)
qed

lemma SetUpImpl_for_completed_batch:
  assumes "i < m_num_operations this"
    and "GenerateEvent (m_fill_events_config this) arts execs n store gen
           (gen_state_0 (m_output_artifact_ids this) s) = Some (Returned status1 (st, gen1))"
    and "ok status1"
  shows "SetUpImpl_for this arts execs store (n # nes) gen i s =
           SetUpImpl_for
             (this\<lparr>m_output_artifact_ids := output_artifact_ids st,
                    m_work_items := m_work_items this @ [(put_request st, curr_bytes st)]\<rparr>)
             arts execs store nes gen1 (i + 1) (store_state st)"
  using assms by (simp add: gen_state_0_def)

lemma SetUpImpl_for_keeps_completed_batch:
  assumes "i < m_num_operations this"
    and "GenerateEvent (m_fill_events_config this) arts execs n store gen
           (gen_state_0 (m_output_artifact_ids this) s) = Some (Returned status1 (st, gen1))"
    and "ok status1"
    and "SetUpImpl_for this arts execs store (n # nes) gen i s = Some (Returned status (this', s'))"
  shows "new_work_items this this' =
           (put_request st, curr_bytes st) #
           new_work_items
             (this\<lparr>m_output_artifact_ids := output_artifact_ids st,
                    m_work_items := m_work_items this @ [(put_request st, curr_bytes st)]\<rparr>) this'"
proof -
  let ?this1 = "this\<lparr>m_output_artifact_ids := output_artifact_ids st,
                    m_work_items := m_work_items this @ [(put_request st, curr_bytes st)]\<rparr>"
  from SetUpImpl_for_completed_batch [OF assms(1-3), of nes] assms(4) have
    "SetUpImpl_for ?this1 arts execs store nes gen1 (i + 1) (store_state st) =
       Some (Returned status (this', s'))"
    by simp
  from SetUpImpl_for_work_items [OF this] have
    w: "m_work_items this' = m_work_items ?this1 @ new_work_items ?this1 this'" .
  then have "m_work_items this' =
      m_work_items this @ (put_request st, curr_bytes st) # new_work_items ?this1 this'"
    by simp
  then have "new_work_items this this' = (put_request st, curr_bytes st) # new_work_items ?this1 this'"
    unfolding new_work_items_def [of this this'] by simp
  then show ?thesis .
qed

lemma SetUpImpl_for_later_batches:
  assumes "config_specification (m_fill_events_config this) = FillEventsConfig_OUTPUT"
    and "i < m_num_operations this"
    and "GenerateEvent (m_fill_events_config this) arts execs n store gen
           (gen_state_0 (m_output_artifact_ids this) s) = Some (Returned status1 (st, gen1))"
    and "a \<in> output_artifact_ids st"
    and "SetUpImpl_for this arts execs store (n # nes) gen i s = Some (Returned status (this', s'))"
  shows "a \<in> m_output_artifact_ids this' \<and>
         a \<notin> artifact_id ` set (concat (map fst (drop 1 (new_work_items this this')))) \<and>
         (ok status1 \<longrightarrow> take 1 (new_work_items this this') = [(put_request st, curr_bytes st)]) \<and>
         (\<not> ok status1 \<longrightarrow> new_work_items this this' = [])"
proof (cases "ok status1")
  case False
  from SetUpImpl_for_failed_batch [OF assms(2,3) False, of nes] assms(5) have
    "this' = this\<lparr>m_output_artifact_ids := output_artifact_ids st\<rparr>" by simp
  with assms(4) False show ?thesis by (simp add: new_work_items_def)
next
  case True
  let ?this1 = "this\<lparr>m_output_artifact_ids := output_artifact_ids st,
                    m_work_items := m_work_items this @ [(put_request st, curr_bytes st)]\<rparr>"
  from SetUpImpl_for_completed_batch [OF assms(2,3) True, of nes] assms(5) have
    r: "SetUpImpl_for ?this1 arts execs store nes gen1 (i + 1) (store_state st) =
          Some (Returned status (this', s'))"
    by simp
  have cfg1: "config_specification (m_fill_events_config ?this1) = FillEventsConfig_OUTPUT"
    using assms(1) by simp
  have used: "a \<in> m_output_artifact_ids ?this1" using assms(4) by simp
  from SetUpImpl_for_used_artifact [OF r cfg1 used] have
    "a \<in> m_output_artifact_ids this'"
    "a \<notin> artifact_id ` set (concat (map fst (new_work_items ?this1 this')))"
    by simp_all
  moreover from SetUpImpl_for_keeps_completed_batch [OF assms(2,3) True assms(5)] have
    "new_work_items this this' = (put_request st, curr_bytes st) # new_work_items ?this1 this'" .
  ultimately show ?thesis using True by simp
qed

lemma check_output_candidate_conflict:
  assumes "code (fst (CheckDuplicateOutputArtifactInDb a store (store_state st))) = ALREADY_EXISTS"
  shows "check_output_candidate cfg store a x i st =
           Continue i
             (st\<lparr>output_artifact_ids := insert a (output_artifact_ids st),
                 store_state := snd (CheckDuplicateOutputArtifactInDb a store (store_state st))\<rparr>)"
  using assms code_ALREADY_EXISTS_not_ok [OF assms] by (simp add: check_output_candidate_eq)

lemma SetUpImpl_for_store_rejected_first_draw:
  assumes "config_specification (m_fill_events_config this) = FillEventsConfig_OUTPUT"
    and "get_Artifact_id arts (fst draw) = Inr a"
    and "get_Execution_id execs (snd draw) = Inr x"
    and "i < m_num_operations this"
    and "0 < n"
    and "code (fst (CheckDuplicateOutputArtifactInDb a store s)) = ALREADY_EXISTS"
    and "SetUpImpl_for this arts execs store (n # nes) (draw # gen) i s =
           Some (Returned status (this', s'))"
  shows "a \<in> m_output_artifact_ids this' \<and>
         a \<notin> artifact_id ` set (concat (map fst (new_work_items this this')))"
proof -
  let ?cfg = "m_fill_events_config this"
  let ?st0 = "gen_state_0 (m_output_artifact_ids this) s"
  let ?st1 = "?st0\<lparr>output_artifact_ids := insert a (output_artifact_ids ?st0),
                    store_state := snd (CheckDuplicateOutputArtifactInDb a store (store_state ?st0))\<rparr>"
  have ss: "store_state ?st0 = s" by (simp add: gen_state_0_def)
  have turn: "GenerateEvent_turn ?cfg arts execs store draw 0 ?st0 = Continue 0 ?st1"
    using check_output_candidate_conflict [of a store ?st0 ?cfg x 0] assms(1-3,6) ss
    by (simp add: GenerateEvent_turn_OUTPUT_eq)
  have unfold: "GenerateEvent ?cfg arts execs n store (draw # gen) ?st0 =
      GenerateEvent_while ?cfg arts execs n store gen 0 ?st1"
    using turn assms(5) by (simp add: GenerateEvent_def)
  from assms(4,7) obtain status1 st gen1 where
    g: "GenerateEvent ?cfg arts execs n store (draw # gen) ?st0 = Some (Returned status1 (st, gen1))"
    by (auto simp: gen_state_0_def split: option.splits Outcome.splits)
  with unfold have w: "GenerateEvent_while ?cfg arts execs n store gen 0 ?st1 =
      Some (Returned status1 (st, gen1))"
    by simp
  have "a \<in> output_artifact_ids ?st1" by simp
  from GenerateEvent_while_used_artifact [OF w assms(1) this] obtain new where
    used: "a \<in> output_artifact_ids st" and
    new: "put_request st = put_request ?st1 @ new" "a \<notin> artifact_id ` set new"
    by blast
  have "put_request ?st1 = []" by (simp add: gen_state_0_def)
  with new have batch: "a \<notin> artifact_id ` set (put_request st)" by simp
  from SetUpImpl_for_later_batches [OF assms(1,4) g used assms(7)] have
    l: "a \<in> m_output_artifact_ids this'"
      "a \<notin> artifact_id ` set (concat (map fst (drop 1 (new_work_items this this'))))"
      "ok status1 \<longrightarrow> take 1 (new_work_items this this') = [(put_request st, curr_bytes st)]"
      "\<not> ok status1 \<longrightarrow> new_work_items this this' = []"
    by simp_all
  have "a \<notin> artifact_id ` set (concat (map fst (new_work_items this this')))"
  proof (cases "ok status1")
    case False
    with l(4) show ?thesis by simp
  next
    case True
    with l(3) have t: "take 1 (new_work_items this this') = [(put_request st, curr_bytes st)]"
      by simp
    obtain rest where rest: "new_work_items this this' = (put_request st, curr_bytes st) # rest"
      using t by (cases "new_work_items this this'") simp_all
    then have "concat (map fst (new_work_items this this')) =
        put_request st @ concat (map fst (drop 1 (new_work_items this this')))"
      by simp
    with batch l(2) show ?thesis by auto
  qed
  with l(1) show ?thesis by simp
qed

text \<open>
  C9. In a run configured with OUTPUT, the local check of a drawn candidate \<open>a\<close> answers
  whether \<open>a\<close> is in the set of used output artifacts and leaves \<open>a\<close> in the set; after the
  turn the set is the old one with \<open>a\<close> inserted, whatever the store answered (accepted,
  rejected or failed). From then on \<open>a\<close> is never accepted: in the rest of the loop no
  appended event references \<open>a\<close>, and no batch that the \<^verbatim>\<open>for\<close> loop of \<^verbatim>\<open>SetUpImpl\<close>
  stores afterwards holds an event that references \<open>a\<close>. The loop of \<^verbatim>\<open>SetUpImpl\<close> carries
  the set from a batch into the next ones: when the generation of a batch ends with \<open>a\<close>
  in the set, no later batch of the same call references \<open>a\<close>; and when the first draw of
  a batch is \<open>a\<close> and the store check answers ALREADY\_EXISTS, neither that batch nor any
  later batch of the call references \<open>a\<close>.
\<close>

theorem output_candidate_recorded_before_store_check:
  assumes "config_specification cfg = FillEventsConfig_OUTPUT"
    and "get_Artifact_id arts (fst draw) = Inr a"
    and "get_Execution_id execs (snd draw) = Inr x"
  shows "fst (CheckDuplicateOutputArtifactInCurrentSetUp a (output_artifact_ids st)) =
           (a \<in> output_artifact_ids st) \<and>
         snd (CheckDuplicateOutputArtifactInCurrentSetUp a (output_artifact_ids st)) =
           insert a (output_artifact_ids st) \<and>
         (turn_state (GenerateEvent_turn cfg arts execs store draw i st) = Some st1 \<longrightarrow>
            output_artifact_ids st1 = insert a (output_artifact_ids st) \<and>
            (GenerateEvent_while cfg arts execs n store gen i1 st1 =
               Some (Returned status (st', gen')) \<longrightarrow>
             a \<in> output_artifact_ids st' \<and>
             (\<exists>new. put_request st' = put_request st1 @ new \<and> a \<notin> artifact_id ` set new)) \<and>
            (m_fill_events_config this = cfg \<and>
             output_artifact_ids st1 \<subseteq> m_output_artifact_ids this \<and>
             SetUpImpl_for this arts execs store nes gen2 k s = Some (Returned status2 (this', s')) \<longrightarrow>
             a \<in> m_output_artifact_ids this' \<and>
             a \<notin> artifact_id ` set (concat (map fst (new_work_items this this'))))) \<and>
         (m_fill_events_config that = cfg \<and> j < m_num_operations that \<and>
          GenerateEvent cfg arts execs m store gen3 (gen_state_0 (m_output_artifact_ids that) s3) =
            Some (Returned status3 (st3, gen4)) \<and>
          a \<in> output_artifact_ids st3 \<and>
          SetUpImpl_for that arts execs store (m # ms) gen3 j s3 = Some (Returned status4 (that', s4)) \<longrightarrow>
            a \<in> m_output_artifact_ids that' \<and>
            a \<notin> artifact_id ` set (concat (map fst (drop 1 (new_work_items that that')))) \<and>
            (ok status3 \<longrightarrow> take 1 (new_work_items that that') = [(put_request st3, curr_bytes st3)]) \<and>
            (\<not> ok status3 \<longrightarrow> new_work_items that that' = [])) \<and>
         (m_fill_events_config that = cfg \<and> j < m_num_operations that \<and> 0 < m \<and>
          code (fst (CheckDuplicateOutputArtifactInDb a store s3)) = ALREADY_EXISTS \<and>
          SetUpImpl_for that arts execs store (m # ms) (draw # gen5) j s3 =
            Some (Returned status4 (that', s4)) \<longrightarrow>
            a \<in> m_output_artifact_ids that' \<and>
            a \<notin> artifact_id ` set (concat (map fst (new_work_items that that'))))"
proof (intro conjI impI)
  show "fst (CheckDuplicateOutputArtifactInCurrentSetUp a (output_artifact_ids st)) =
          (a \<in> output_artifact_ids st)"
    by (simp add: CheckDuplicateOutputArtifactInCurrentSetUp_eq)
  show "snd (CheckDuplicateOutputArtifactInCurrentSetUp a (output_artifact_ids st)) =
          insert a (output_artifact_ids st)"
    by (simp add: CheckDuplicateOutputArtifactInCurrentSetUp_eq)
next
  assume t: "turn_state (GenerateEvent_turn cfg arts execs store draw i st) = Some st1"
  with assms show ins: "output_artifact_ids st1 = insert a (output_artifact_ids st)"
    using turn_state_check_output_candidate [of cfg store a x i st st1]
    by (simp add: GenerateEvent_turn_OUTPUT_eq)
  {
    assume "GenerateEvent_while cfg arts execs n store gen i1 st1 =
      Some (Returned status (st', gen'))"
    from GenerateEvent_while_used_artifact [OF this assms(1), of a] ins
    show "a \<in> output_artifact_ids st'"
      and "\<exists>new. put_request st' = put_request st1 @ new \<and> a \<notin> artifact_id ` set new"
      by simp_all
  }
  {
    assume r: "m_fill_events_config this = cfg \<and>
      output_artifact_ids st1 \<subseteq> m_output_artifact_ids this \<and>
      SetUpImpl_for this arts execs store nes gen2 k s = Some (Returned status2 (this', s'))"
    then have "a \<in> m_output_artifact_ids this" using ins by auto
    moreover from r assms(1) have
      "config_specification (m_fill_events_config this) = FillEventsConfig_OUTPUT" by simp
    ultimately show "a \<in> m_output_artifact_ids this'"
      and "a \<notin> artifact_id ` set (concat (map fst (new_work_items this this')))"
      using SetUpImpl_for_used_artifact [of this arts execs store nes gen2 k s status2 this' s' a] r
      by simp_all
  }
next
  assume b: "m_fill_events_config that = cfg \<and> j < m_num_operations that \<and>
          GenerateEvent cfg arts execs m store gen3 (gen_state_0 (m_output_artifact_ids that) s3) =
            Some (Returned status3 (st3, gen4)) \<and>
          a \<in> output_artifact_ids st3 \<and>
          SetUpImpl_for that arts execs store (m # ms) gen3 j s3 = Some (Returned status4 (that', s4))"
  then have b0: "config_specification (m_fill_events_config that) = FillEventsConfig_OUTPUT"
    and b1: "j < m_num_operations that"
    and b2: "GenerateEvent (m_fill_events_config that) arts execs m store gen3
               (gen_state_0 (m_output_artifact_ids that) s3) = Some (Returned status3 (st3, gen4))"
    and b3: "a \<in> output_artifact_ids st3"
    and b4: "SetUpImpl_for that arts execs store (m # ms) gen3 j s3 = Some (Returned status4 (that', s4))"
    using assms(1) by blast+
  from SetUpImpl_for_later_batches [OF b0 b1 b2 b3 b4]
  show "a \<in> m_output_artifact_ids that'"
    and "a \<notin> artifact_id ` set (concat (map fst (drop 1 (new_work_items that that'))))"
    and "ok status3 \<Longrightarrow> take 1 (new_work_items that that') = [(put_request st3, curr_bytes st3)]"
    and "\<not> ok status3 \<Longrightarrow> new_work_items that that' = []"
    by blast+
next
  assume e: "m_fill_events_config that = cfg \<and> j < m_num_operations that \<and> 0 < m \<and>
          code (fst (CheckDuplicateOutputArtifactInDb a store s3)) = ALREADY_EXISTS \<and>
          SetUpImpl_for that arts execs store (m # ms) (draw # gen5) j s3 =
            Some (Returned status4 (that', s4))"
  then have e0: "config_specification (m_fill_events_config that) = FillEventsConfig_OUTPUT"
    and e1: "j < m_num_operations that"
    and e2: "0 < m"
    and e3: "code (fst (CheckDuplicateOutputArtifactInDb a store s3)) = ALREADY_EXISTS"
    and e4: "SetUpImpl_for that arts execs store (m # ms) (draw # gen5) j s3 =
            Some (Returned status4 (that', s4))"
    using assms(1) by blast+
  from SetUpImpl_for_store_rejected_first_draw [OF e0 assms(2,3) e1 e2 e3 e4]
  show "a \<in> m_output_artifact_ids that'"
    and "a \<notin> artifact_id ` set (concat (map fst (new_work_items that that')))"
    by blast+
qed

theorem output_candidate_recorded_before_store_check_witness:
  "turn_state (GenerateEvent_turn output_config two_artifacts one_execution answering (0, 0) 0
     (script_state {} [(Status_OK, [foo_event Event_OUTPUT 1 9])])) =
     Some (script_state {1} []) \<and>
   GenerateEvent_while output_config two_artifacts one_execution 1 answering [(0, 0), (1, 0)] 0
     (script_state {1} []) =
     Some (Returned Status_OK
       ((script_state {1, 2} [])\<lparr>put_request := [foo_event Event_OUTPUT 2 7], curr_bytes := 20\<rparr>, [])) \<and>
   SetUpImpl_for used_1 two_artifacts one_execution answering [1] [(0, 0), (1, 0)] 0 [] =
     Some (Returned Status_OK
       (used_1\<lparr>m_work_items := [([foo_event Event_OUTPUT 2 7], 20)],
                m_output_artifact_ids := {1, 2}\<rparr>, [])) \<and>
   1 \<notin> artifact_id ` set [foo_event Event_OUTPUT 2 7] \<and>
   code (fst (CheckDuplicateOutputArtifactInDb 1 answering_3
     [(Status_OK, [foo_event Event_OUTPUT 1 9])])) = ALREADY_EXISTS \<and>
   GenerateEvent output_config three_artifacts one_execution 1 answering_3
     [(0, 0), (1, 0), (0, 0), (2, 0)] (gen_state_0 {} [(Status_OK, [foo_event Event_OUTPUT 1 9])]) =
     Some (Returned Status_OK
       ((script_state {1, 2} [])\<lparr>put_request := [foo_event Event_OUTPUT 2 7], curr_bytes := 20\<rparr>,
        [(0, 0), (2, 0)])) \<and>
   SetUpImpl_for fresh_2 three_artifacts one_execution answering_3 [1, 1]
     [(0, 0), (1, 0), (0, 0), (2, 0)] 0 [(Status_OK, [foo_event Event_OUTPUT 1 9])] =
     Some (Returned Status_OK
       (fresh_2\<lparr>m_work_items := [([foo_event Event_OUTPUT 2 7], 20), ([foo_event Event_OUTPUT 3 7], 20)],
                m_output_artifact_ids := {1, 2, 3}\<rparr>, [])) \<and>
   1 \<notin> artifact_id ` set [foo_event Event_OUTPUT 2 7, foo_event Event_OUTPUT 3 7]"
proof -
  let ?batch1 = "(script_state {1, 2} [])\<lparr>put_request := [foo_event Event_OUTPUT 2 7], curr_bytes := 20\<rparr>"
  let ?done = "fresh_2\<lparr>m_work_items := [([foo_event Event_OUTPUT 2 7], 20), ([foo_event Event_OUTPUT 3 7], 20)],
                m_output_artifact_ids := {1, 2, 3}\<rparr>"
  have cfg: "config_specification output_config = FillEventsConfig_OUTPUT" by code_simp
  have a: "get_Artifact_id two_artifacts (fst (0 :: nat, 0 :: nat)) = Inr 1" by code_simp
  have x: "get_Execution_id one_execution (snd (0 :: nat, 0 :: nat)) = Inr 7" by code_simp
  have a3: "get_Artifact_id three_artifacts (fst (0 :: nat, 0 :: nat)) = Inr 1" by code_simp
  have turn: "turn_state (GenerateEvent_turn output_config two_artifacts one_execution answering
     (0, 0) 0 (script_state {} [(Status_OK, [foo_event Event_OUTPUT 1 9])])) =
     Some (script_state {1} [])"
    by code_simp
  have loop: "GenerateEvent_while output_config two_artifacts one_execution 1 answering
     [(0, 0), (1, 0)] 0 (script_state {1} []) = Some (Returned Status_OK (?batch1, []))"
    by code_simp
  have second: "SetUpImpl_for used_1 two_artifacts one_execution answering [1] [(0, 0), (1, 0)] 0 [] =
     Some (Returned Status_OK
       (used_1\<lparr>m_work_items := [([foo_event Event_OUTPUT 2 7], 20)],
                m_output_artifact_ids := {1, 2}\<rparr>, []))"
    by code_simp
  have later: "m_fill_events_config used_1 = output_config \<and>
      output_artifact_ids (script_state {1} []) \<subseteq> m_output_artifact_ids used_1"
    by (simp add: used_1_def FillEvents_new_def script_state_def gen_state_0_def)
  from output_candidate_recorded_before_store_check
    [where cfg = output_config and arts = two_artifacts and execs = one_execution
       and draw = "(0, 0)" and a = 1 and x = 7 and store = answering and i = 0
       and st = "script_state {} [(Status_OK, [foo_event Event_OUTPUT 1 9])]"
       and ?st1.0 = "script_state {1} []" and n = 1 and gen = "[(0, 0), (1, 0)]" and ?i1.0 = 0
       and status = Status_OK and st' = ?batch1
       and gen' = "[]" and this = used_1 and nes = "[1]" and ?gen2.0 = "[(0, 0), (1, 0)]"
       and k = 0 and s = "[]" and ?status2.0 = Status_OK
       and this' = "used_1\<lparr>m_work_items := [([foo_event Event_OUTPUT 2 7], 20)],
                m_output_artifact_ids := {1, 2}\<rparr>"
       and s' = "[]", OF cfg a x]
    turn loop second later
  have "1 \<notin> artifact_id ` set (concat (map fst (new_work_items used_1
      (used_1\<lparr>m_work_items := [([foo_event Event_OUTPUT 2 7], 20)],
                m_output_artifact_ids := {1, 2}\<rparr>))))"
    by simp
  then have part1: "1 \<notin> artifact_id ` set [foo_event Event_OUTPUT 2 7]"
    by (simp add: new_work_items_def used_1_def FillEvents_new_def)
  have conflict: "code (fst (CheckDuplicateOutputArtifactInDb 1 answering_3
     [(Status_OK, [foo_event Event_OUTPUT 1 9])])) = ALREADY_EXISTS"
    by code_simp
  have batch: "GenerateEvent output_config three_artifacts one_execution 1 answering_3
     [(0, 0), (1, 0), (0, 0), (2, 0)] (gen_state_0 {} [(Status_OK, [foo_event Event_OUTPUT 1 9])]) =
     Some (Returned Status_OK (?batch1, [(0, 0), (2, 0)]))"
    by code_simp
  have run: "SetUpImpl_for fresh_2 three_artifacts one_execution answering_3 [1, 1]
     [(0, 0), (1, 0), (0, 0), (2, 0)] 0 [(Status_OK, [foo_event Event_OUTPUT 1 9])] =
     Some (Returned Status_OK (?done, []))"
    by code_simp
  have start: "m_fill_events_config fresh_2 = output_config \<and> 0 < m_num_operations fresh_2 \<and>
      (0 :: int) < 1"
    by code_simp
  have ids: "m_output_artifact_ids fresh_2 = {}" by code_simp
  have carried: "1 \<in> output_artifact_ids ?batch1" by code_simp
  note later_batches = output_candidate_recorded_before_store_check
    [where cfg = output_config and arts = three_artifacts and execs = one_execution
       and draw = "(0, 0)" and a = 1 and x = 7 and store = answering_3
       and that = fresh_2 and j = 0 and m = 1 and ms = "[1]"
       and ?gen3.0 = "[(0, 0), (1, 0), (0, 0), (2, 0)]" and ?status3.0 = Status_OK
       and ?st3.0 = ?batch1 and ?gen4.0 = "[(0, 0), (2, 0)]"
       and ?s3.0 = "[(Status_OK, [foo_event Event_OUTPUT 1 9])]"
       and ?status4.0 = Status_OK and that' = ?done and ?s4.0 = "[]", OF cfg a3 x,
     THEN conjunct2, THEN conjunct2, THEN conjunct2, THEN conjunct1]
  from later_batches start batch carried run ids
  have part3: "1 \<notin> artifact_id ` set (concat (map fst (drop 1 (new_work_items fresh_2 ?done))))"
    by simp
  note first_draw = output_candidate_recorded_before_store_check
    [where cfg = output_config and arts = three_artifacts and execs = one_execution
       and draw = "(0, 0)" and a = 1 and x = 7 and store = answering_3
       and that = fresh_2 and j = 0 and m = 1 and ms = "[1]"
       and ?gen5.0 = "[(1, 0), (0, 0), (2, 0)]"
       and ?s3.0 = "[(Status_OK, [foo_event Event_OUTPUT 1 9])]"
       and ?status4.0 = Status_OK and that' = ?done and ?s4.0 = "[]", OF cfg a3 x,
     THEN conjunct2, THEN conjunct2, THEN conjunct2, THEN conjunct2]
  from first_draw start conflict run
  have "1 \<notin> artifact_id ` set (concat (map fst (new_work_items fresh_2 ?done)))"
    by blast
  moreover have "new_work_items fresh_2 ?done =
      [([foo_event Event_OUTPUT 2 7], 20), ([foo_event Event_OUTPUT 3 7], 20)]"
    by code_simp
  ultimately have part2: "1 \<notin> artifact_id ` set [foo_event Event_OUTPUT 2 7, foo_event Event_OUTPUT 3 7]"
    by simp
  from turn loop second part1 conflict batch run part2 show ?thesis by blast
qed

text \<open>
  C10. In a run configured with OUTPUT, the store is queried in the turn of every drawn
  candidate \<open>a\<close>: the store's state after the turn is the one the query for \<open>a\<close> leaves. When
  \<open>a\<close> is already in the set of used output artifacts and the query fails with a status
  other than ALREADY\_EXISTS, \<^verbatim>\<open>GenerateEvent\<close> returns that status at once; and when
  \<^verbatim>\<open>GenerateEvent\<close> returns a status that is not OK, the \<^verbatim>\<open>for\<close> loop of \<^verbatim>\<open>SetUpImpl\<close>
  returns it without storing the batch.
\<close>

theorem store_failure_on_rejected_candidate_aborts:
  assumes "config_specification cfg = FillEventsConfig_OUTPUT"
    and "get_Artifact_id arts (fst draw) = Inr a"
    and "get_Execution_id execs (snd draw) = Inr x"
  shows "(turn_state (GenerateEvent_turn cfg arts execs store draw i st) = Some st1 \<longrightarrow>
            store_state st1 = snd (GetEventsByArtifactIDs store (store_state st) [a])) \<and>
         (a \<in> output_artifact_ids st \<and> i < n \<and>
          \<not> ok (fst (fst (GetEventsByArtifactIDs store (store_state st) [a]))) \<and>
          code (fst (fst (GetEventsByArtifactIDs store (store_state st) [a]))) \<noteq> ALREADY_EXISTS \<longrightarrow>
            GenerateEvent_while cfg arts execs n store (draw # gen) i st =
              Some (Returned (fst (fst (GetEventsByArtifactIDs store (store_state st) [a])))
                (st\<lparr>store_state := snd (GetEventsByArtifactIDs store (store_state st) [a])\<rparr>, gen))) \<and>
         (m_fill_events_config this = cfg \<and> k < m_num_operations this \<and>
          GenerateEvent cfg arts execs m store gen1 (gen_state_0 (m_output_artifact_ids this) s) =
            Some (Returned status (st2, gen2)) \<and> \<not> ok status \<longrightarrow>
            SetUpImpl_for this arts execs store (m # nes) gen1 k s =
              Some (Returned status
                (this\<lparr>m_output_artifact_ids := output_artifact_ids st2\<rparr>, store_state st2)))"
proof (intro conjI impI)
  assume "turn_state (GenerateEvent_turn cfg arts execs store draw i st) = Some st1"
  with assms show "store_state st1 = snd (GetEventsByArtifactIDs store (store_state st) [a])"
    using turn_state_check_output_candidate [of cfg store a x i st st1]
    by (simp add: GenerateEvent_turn_OUTPUT_eq)
next
  assume f: "a \<in> output_artifact_ids st \<and> i < n \<and>
          \<not> ok (fst (fst (GetEventsByArtifactIDs store (store_state st) [a]))) \<and>
          code (fst (fst (GetEventsByArtifactIDs store (store_state st) [a]))) \<noteq> ALREADY_EXISTS"
  then have "check_output_candidate cfg store a x i st =
           Return (fst (fst (GetEventsByArtifactIDs store (store_state st) [a])))
             (st\<lparr>output_artifact_ids := insert a (output_artifact_ids st),
                 store_state := snd (GetEventsByArtifactIDs store (store_state st) [a])\<rparr>)"
    using check_output_candidate_failure by blast
  moreover from f have "insert a (output_artifact_ids st) = output_artifact_ids st"
    by (simp add: insert_absorb)
  ultimately show "GenerateEvent_while cfg arts execs n store (draw # gen) i st =
              Some (Returned (fst (fst (GetEventsByArtifactIDs store (store_state st) [a])))
                (st\<lparr>store_state := snd (GetEventsByArtifactIDs store (store_state st) [a])\<rparr>, gen))"
    using f assms by (simp add: GenerateEvent_turn_OUTPUT_eq)
next
  assume "m_fill_events_config this = cfg \<and> k < m_num_operations this \<and>
          GenerateEvent cfg arts execs m store gen1 (gen_state_0 (m_output_artifact_ids this) s) =
            Some (Returned status (st2, gen2)) \<and> \<not> ok status"
  then show "SetUpImpl_for this arts execs store (m # nes) gen1 k s =
              Some (Returned status
                (this\<lparr>m_output_artifact_ids := output_artifact_ids st2\<rparr>, store_state st2))"
    using SetUpImpl_for_failed_batch [of k this arts execs m store gen1 s status st2 gen2 nes]
    by simp
qed

theorem store_failure_on_rejected_candidate_aborts_witness:
  "1 \<in> output_artifact_ids (script_state {1} [(error_status INTERNAL, [])]) \<and>
   GenerateEvent_while output_config two_artifacts one_execution 1 answering [(0, 0)] 0
     (script_state {1} [(error_status INTERNAL, [])]) =
     Some (Returned (error_status INTERNAL) (script_state {1} [], [])) \<and>
   SetUpImpl_for used_1 two_artifacts one_execution answering [1] [(0, 0)] 0
     [(error_status INTERNAL, [])] =
     Some (Returned (error_status INTERNAL) (used_1, []))"
proof -
  have cfg: "config_specification output_config = FillEventsConfig_OUTPUT" by code_simp
  have a: "get_Artifact_id two_artifacts (fst (0 :: nat, 0 :: nat)) = Inr 1" by code_simp
  have x: "get_Execution_id one_execution (snd (0 :: nat, 0 :: nat)) = Inr 7" by code_simp
  have used: "1 \<in> output_artifact_ids (script_state {1} [(error_status INTERNAL, [])])"
    by code_simp
  have failure: "(0 :: int) < 1 \<and>
      \<not> ok (fst (fst (GetEventsByArtifactIDs answering
              (store_state (script_state {1} [(error_status INTERNAL, [])])) [1]))) \<and>
      code (fst (fst (GetEventsByArtifactIDs answering
              (store_state (script_state {1} [(error_status INTERNAL, [])])) [1]))) \<noteq> ALREADY_EXISTS"
    by code_simp
  have batch: "m_fill_events_config used_1 = output_config \<and> 0 < m_num_operations used_1 \<and>
      GenerateEvent output_config two_artifacts one_execution 1 answering [(0, 0)]
        (gen_state_0 (m_output_artifact_ids used_1) [(error_status INTERNAL, [])]) =
      Some (Returned (error_status INTERNAL) (script_state {1} [], [])) \<and>
      \<not> ok (error_status INTERNAL)"
    by code_simp
  note t = store_failure_on_rejected_candidate_aborts
    [where cfg = output_config and arts = two_artifacts and execs = one_execution
       and draw = "(0, 0)" and a = 1 and x = 7 and store = answering and i = 0 and n = 1
       and st = "script_state {1} [(error_status INTERNAL, [])]" and gen = "[]"
       and this = used_1 and k = 0 and m = 1 and ?gen1.0 = "[(0, 0)]"
       and s = "[(error_status INTERNAL, [])]" and status = "error_status INTERNAL"
       and ?st2.0 = "script_state {1} []" and ?gen2.0 = "[]" and nes = "[]", OF cfg a x]
  from t used failure have "GenerateEvent_while output_config two_artifacts one_execution 1
      answering [(0, 0)] 0 (script_state {1} [(error_status INTERNAL, [])]) =
    Some (Returned
      (fst (fst (GetEventsByArtifactIDs answering
         (store_state (script_state {1} [(error_status INTERNAL, [])])) [1])))
      ((script_state {1} [(error_status INTERNAL, [])])
         \<lparr>store_state := snd (GetEventsByArtifactIDs answering
            (store_state (script_state {1} [(error_status INTERNAL, [])])) [1])\<rparr>, []))"
    by blast
  moreover from t batch have "SetUpImpl_for used_1 two_artifacts one_execution answering [1]
      [(0, 0)] 0 [(error_status INTERNAL, [])] =
    Some (Returned (error_status INTERNAL)
      (used_1\<lparr>m_output_artifact_ids := output_artifact_ids (script_state {1} [])\<rparr>,
       store_state (script_state {1} [])))"
    by blast
  ultimately show ?thesis using used
    by (simp add: script_state_def gen_state_0_def answering_def scripted_store_def used_1_def)
qed

text \<open>
  C4, as amended. In a run configured with OUTPUT, a drawn candidate \<open>a\<close> is discarded and
  drawn again (the loop goes on with the same counter and the same batch) exactly when the
  store check answers ALREADY\_EXISTS, or the store check answers OK and \<open>a\<close> is already in
  the set of used output artifacts. When the store check fails with any other status, the
  turn returns that status and so does \<^verbatim>\<open>GenerateEvent\<close>, at once, also for a candidate
  that is already in the set. A status with code ALREADY\_EXISTS is never what
  \<^verbatim>\<open>GenerateEvent\<close> returns.
\<close>

theorem output_candidate_resampled_iff:
  assumes "config_specification cfg = FillEventsConfig_OUTPUT"
    and "get_Artifact_id arts (fst draw) = Inr a"
    and "get_Execution_id execs (snd draw) = Inr x"
  shows "((\<exists>st1. GenerateEvent_turn cfg arts execs store draw i st = Continue i st1 \<and>
                 put_request st1 = put_request st) \<longleftrightarrow>
          (code (fst (CheckDuplicateOutputArtifactInDb a store (store_state st))) = ALREADY_EXISTS \<or>
           (a \<in> output_artifact_ids st \<and>
            ok (fst (CheckDuplicateOutputArtifactInDb a store (store_state st)))))) \<and>
         (\<not> ok (fst (CheckDuplicateOutputArtifactInDb a store (store_state st))) \<and>
          code (fst (CheckDuplicateOutputArtifactInDb a store (store_state st))) \<noteq> ALREADY_EXISTS \<longrightarrow>
            GenerateEvent_turn cfg arts execs store draw i st =
              Return (fst (CheckDuplicateOutputArtifactInDb a store (store_state st)))
                (st\<lparr>output_artifact_ids := insert a (output_artifact_ids st),
                    store_state := snd (CheckDuplicateOutputArtifactInDb a store (store_state st))\<rparr>) \<and>
            (i < m \<longrightarrow>
               GenerateEvent_while cfg arts execs m store (draw # rest) i st =
                 Some (Returned (fst (CheckDuplicateOutputArtifactInDb a store (store_state st)))
                   (st\<lparr>output_artifact_ids := insert a (output_artifact_ids st),
                       store_state := snd (CheckDuplicateOutputArtifactInDb a store (store_state st))\<rparr>,
                    rest)))) \<and>
         (GenerateEvent_while cfg arts execs n store gen i2 st2 = Some (Returned status (st', gen')) \<longrightarrow>
            code status \<noteq> ALREADY_EXISTS)"
proof (intro conjI impI iffI)
  assume "\<exists>st1. GenerateEvent_turn cfg arts execs store draw i st = Continue i st1 \<and>
                 put_request st1 = put_request st"
  then obtain st1 where c: "check_output_candidate cfg store a x i st = Continue i st1"
    using assms by (auto simp: GenerateEvent_turn_OUTPUT_eq)
  then show "code (fst (CheckDuplicateOutputArtifactInDb a store (store_state st))) = ALREADY_EXISTS \<or>
           (a \<in> output_artifact_ids st \<and>
            ok (fst (CheckDuplicateOutputArtifactInDb a store (store_state st))))"
    by (auto simp: check_output_candidate_eq split: if_splits dest: accept_candidate_Continue)
next
  assume "code (fst (CheckDuplicateOutputArtifactInDb a store (store_state st))) = ALREADY_EXISTS \<or>
           (a \<in> output_artifact_ids st \<and>
            ok (fst (CheckDuplicateOutputArtifactInDb a store (store_state st))))"
  then have "check_output_candidate cfg store a x i st =
      Continue i (st\<lparr>output_artifact_ids := insert a (output_artifact_ids st),
                 store_state := snd (CheckDuplicateOutputArtifactInDb a store (store_state st))\<rparr>)"
    by (auto simp: check_output_candidate_eq dest: code_ALREADY_EXISTS_not_ok)
  with assms show "\<exists>st1. GenerateEvent_turn cfg arts execs store draw i st = Continue i st1 \<and>
                 put_request st1 = put_request st"
    by (simp add: GenerateEvent_turn_OUTPUT_eq)
next
  assume f: "\<not> ok (fst (CheckDuplicateOutputArtifactInDb a store (store_state st))) \<and>
          code (fst (CheckDuplicateOutputArtifactInDb a store (store_state st))) \<noteq> ALREADY_EXISTS"
  with assms show turn: "GenerateEvent_turn cfg arts execs store draw i st =
              Return (fst (CheckDuplicateOutputArtifactInDb a store (store_state st)))
                (st\<lparr>output_artifact_ids := insert a (output_artifact_ids st),
                    store_state := snd (CheckDuplicateOutputArtifactInDb a store (store_state st))\<rparr>)"
    by (simp add: GenerateEvent_turn_OUTPUT_eq check_output_candidate_eq)
  assume "i < m"
  with turn show "GenerateEvent_while cfg arts execs m store (draw # rest) i st =
                 Some (Returned (fst (CheckDuplicateOutputArtifactInDb a store (store_state st)))
                   (st\<lparr>output_artifact_ids := insert a (output_artifact_ids st),
                       store_state := snd (CheckDuplicateOutputArtifactInDb a store (store_state st))\<rparr>,
                    rest))"
    by simp
next
  assume "GenerateEvent_while cfg arts execs n store gen i2 st2 = Some (Returned status (st', gen'))"
  from GenerateEvent_while_batch [OF this] show "code status \<noteq> ALREADY_EXISTS" by blast
qed

text \<open>
  The claim as the specification states it fails: the candidate is in the set of used
  output artifacts, the store's query fails with INTERNAL, and the turn returns that
  status instead of drawing again.
\<close>

theorem output_candidate_resampled_counterexample:
  "1 \<in> output_artifact_ids (script_state {1} [(error_status INTERNAL, [])]) \<and>
   GenerateEvent_turn output_config two_artifacts one_execution answering (0, 0) 0
     (script_state {1} [(error_status INTERNAL, [])]) =
   Return (error_status INTERNAL) (script_state {1} [])"
  by code_simp

theorem output_candidate_resampled_iff_witness:
  "GenerateEvent_turn output_config two_artifacts one_execution answering (0, 0) 0
     (script_state {} [(Status_OK, [foo_event Event_OUTPUT 1 9])]) =
   Continue 0 (script_state {1} []) \<and>
   code (fst (CheckDuplicateOutputArtifactInDb 1 answering [(Status_OK, [foo_event Event_OUTPUT 1 9])])) =
     ALREADY_EXISTS \<and>
   GenerateEvent_while output_config two_artifacts one_execution 1 answering [(0, 0), (1, 0)] 0
     (script_state {} [(Status_OK, [foo_event Event_OUTPUT 1 9])]) =
   Some (Returned Status_OK
     ((script_state {1, 2} [])\<lparr>put_request := [foo_event Event_OUTPUT 2 7], curr_bytes := 20\<rparr>, [])) \<and>
   code Status_OK \<noteq> ALREADY_EXISTS \<and>
   1 \<in> output_artifact_ids (script_state {1} [(error_status INTERNAL, [])]) \<and>
   GenerateEvent_turn output_config two_artifacts one_execution answering (0, 0) 0
     (script_state {1} [(error_status INTERNAL, [])]) =
   Return (error_status INTERNAL) (script_state {1} []) \<and>
   GenerateEvent_while output_config two_artifacts one_execution 1 answering [(0, 0), (1, 0)] 0
     (script_state {1} [(error_status INTERNAL, [])]) =
   Some (Returned (error_status INTERNAL) (script_state {1} [], [(1, 0)]))"
proof -
  have cfg: "config_specification output_config = FillEventsConfig_OUTPUT" by code_simp
  have a: "get_Artifact_id two_artifacts (fst (0 :: nat, 0 :: nat)) = Inr 1" by code_simp
  have x: "get_Execution_id one_execution (snd (0 :: nat, 0 :: nat)) = Inr 7" by code_simp
  have turn: "GenerateEvent_turn output_config two_artifacts one_execution answering (0, 0) 0
     (script_state {} [(Status_OK, [foo_event Event_OUTPUT 1 9])]) =
   Continue 0 (script_state {1} [])"
    by code_simp
  have conflict: "code (fst (CheckDuplicateOutputArtifactInDb 1 answering
      [(Status_OK, [foo_event Event_OUTPUT 1 9])])) = ALREADY_EXISTS"
    by code_simp
  have loop: "GenerateEvent_while output_config two_artifacts one_execution 1 answering
     [(0, 0), (1, 0)] 0 (script_state {} [(Status_OK, [foo_event Event_OUTPUT 1 9])]) =
   Some (Returned Status_OK
     ((script_state {1, 2} [])\<lparr>put_request := [foo_event Event_OUTPUT 2 7], curr_bytes := 20\<rparr>, []))"
    by code_simp
  from output_candidate_resampled_iff [OF cfg a x, where store = answering and i = 0
      and st = "script_state {} [(Status_OK, [foo_event Event_OUTPUT 1 9])]" and n = 1
      and gen = "[(0, 0), (1, 0)]" and ?i2.0 = 0
      and ?st2.0 = "script_state {} [(Status_OK, [foo_event Event_OUTPUT 1 9])]"
      and status = Status_OK
      and st' = "(script_state {1, 2} [])\<lparr>put_request := [foo_event Event_OUTPUT 2 7], curr_bytes := 20\<rparr>"
      and gen' = "[]"]
    loop
  have never: "code Status_OK \<noteq> ALREADY_EXISTS" by simp
  have used: "1 \<in> output_artifact_ids (script_state {1} [(error_status INTERNAL, [])])"
    by code_simp
  have failure: "\<not> ok (fst (CheckDuplicateOutputArtifactInDb 1 answering
        (store_state (script_state {1} [(error_status INTERNAL, [])])))) \<and>
      code (fst (CheckDuplicateOutputArtifactInDb 1 answering
        (store_state (script_state {1} [(error_status INTERNAL, [])])))) \<noteq> ALREADY_EXISTS \<and>
      (0 :: int) < 1"
    by code_simp
  from output_candidate_resampled_iff [OF cfg a x, where store = answering and i = 0 and m = 1 and rest = "[(1, 0)]"
      and st = "script_state {1} [(error_status INTERNAL, [])]"]
    failure
  have "GenerateEvent_turn output_config two_artifacts one_execution answering (0, 0) 0
      (script_state {1} [(error_status INTERNAL, [])]) =
    Return (fst (CheckDuplicateOutputArtifactInDb 1 answering
              (store_state (script_state {1} [(error_status INTERNAL, [])]))))
      ((script_state {1} [(error_status INTERNAL, [])])
         \<lparr>output_artifact_ids :=
            insert 1 (output_artifact_ids (script_state {1} [(error_status INTERNAL, [])])),
          store_state := snd (CheckDuplicateOutputArtifactInDb 1 answering
              (store_state (script_state {1} [(error_status INTERNAL, [])])))\<rparr>) \<and>
    GenerateEvent_while output_config two_artifacts one_execution 1 answering [(0, 0), (1, 0)] 0
      (script_state {1} [(error_status INTERNAL, [])]) =
    Some (Returned (fst (CheckDuplicateOutputArtifactInDb 1 answering
              (store_state (script_state {1} [(error_status INTERNAL, [])]))))
      ((script_state {1} [(error_status INTERNAL, [])])
         \<lparr>output_artifact_ids :=
            insert 1 (output_artifact_ids (script_state {1} [(error_status INTERNAL, [])])),
          store_state := snd (CheckDuplicateOutputArtifactInDb 1 answering
              (store_state (script_state {1} [(error_status INTERNAL, [])])))\<rparr>, [(1, 0)]))"
    by blast
  moreover have "CheckDuplicateOutputArtifactInDb 1 answering
      (store_state (script_state {1} [(error_status INTERNAL, [])])) = (error_status INTERNAL, [])"
    by code_simp
  moreover have "(script_state {1} [(error_status INTERNAL, [])])
         \<lparr>output_artifact_ids :=
            insert 1 (output_artifact_ids (script_state {1} [(error_status INTERNAL, [])])),
          store_state := []\<rparr> = script_state {1} []"
    by code_simp
  ultimately have "GenerateEvent_turn output_config two_artifacts one_execution answering (0, 0) 0
      (script_state {1} [(error_status INTERNAL, [])]) =
    Return (error_status INTERNAL) (script_state {1} []) \<and>
    GenerateEvent_while output_config two_artifacts one_execution 1 answering [(0, 0), (1, 0)] 0
      (script_state {1} [(error_status INTERNAL, [])]) =
    Some (Returned (error_status INTERNAL) (script_state {1} [], [(1, 0)]))"
    by simp
  with turn conflict loop never used show ?thesis by simp
qed

text \<open>
  C1, as amended. In the duplicate-output check of a candidate \<open>a\<close>, a status of the
  store's query that is not OK is what \<^verbatim>\<open>CheckDuplicateOutputArtifactInDb\<close> returns; unless
  its code is ALREADY\_EXISTS, \<^verbatim>\<open>GenerateEvent\<close> returns it at once, and NOT\_FOUND is no
  exception. A query that answers OK with no OUTPUT event (with no event at all, for one)
  leaves the candidate eligible: when \<open>a\<close> was not in the set of used output artifacts, the
  event is appended and the counter advances.
\<close>

theorem not_found_status_is_returned:
  assumes "config_specification cfg = FillEventsConfig_OUTPUT"
    and "get_Artifact_id arts (fst draw) = Inr a"
    and "get_Execution_id execs (snd draw) = Inr x"
    and "GetEventsByArtifactIDs store (store_state st) [a] = ((status, events), s')"
  shows "(\<not> ok status \<longrightarrow>
            CheckDuplicateOutputArtifactInDb a store (store_state st) = (status, s')) \<and>
         (\<not> ok status \<and> code status \<noteq> ALREADY_EXISTS \<and> i < n \<longrightarrow>
            GenerateEvent_while cfg arts execs n store (draw # gen) i st =
              Some (Returned status
                (st\<lparr>output_artifact_ids := insert a (output_artifact_ids st), store_state := s'\<rparr>,
                 gen))) \<and>
         (ok status \<and> (\<forall>e\<in>set events. event_type e \<noteq> Event_OUTPUT) \<and>
          a \<notin> output_artifact_ids st \<and> curr_bytes st + 20 \<le> INT64_MAX \<and> i \<noteq> INT_MAX \<longrightarrow>
            GenerateEvent_turn cfg arts execs store draw i st =
              Continue (i + 1)
                (st\<lparr>output_artifact_ids := insert a (output_artifact_ids st), store_state := s',
                    put_request := put_request st @ [foo_event Event_OUTPUT a x],
                    curr_bytes := curr_bytes st + 20\<rparr>))"
proof (intro conjI impI)
  assume "\<not> ok status"
  with assms(4) show "CheckDuplicateOutputArtifactInDb a store (store_state st) = (status, s')"
    by (simp add: CheckDuplicateOutputArtifactInDb_def)
next
  assume f: "\<not> ok status \<and> code status \<noteq> ALREADY_EXISTS \<and> i < n"
  with assms(4) have "check_output_candidate cfg store a x i st =
      Return status
        (st\<lparr>output_artifact_ids := insert a (output_artifact_ids st), store_state := s'\<rparr>)"
    using check_output_candidate_failure [of store st a cfg x i] by simp
  with f assms show "GenerateEvent_while cfg arts execs n store (draw # gen) i st =
              Some (Returned status
                (st\<lparr>output_artifact_ids := insert a (output_artifact_ids st), store_state := s'\<rparr>,
                 gen))"
    by (simp add: GenerateEvent_turn_OUTPUT_eq)
next
  assume e: "ok status \<and> (\<forall>e\<in>set events. event_type e \<noteq> Event_OUTPUT) \<and>
          a \<notin> output_artifact_ids st \<and> curr_bytes st + 20 \<le> INT64_MAX \<and> i \<noteq> INT_MAX"
  with assms(4) have "CheckDuplicateOutputArtifactInDb a store (store_state st) =
      (scan_response_events events, s')"
    by (simp add: CheckDuplicateOutputArtifactInDb_def)
  moreover from e have "ok (scan_response_events events)"
    by (simp add: ok_scan_response_events)
  moreover have "stamped_type cfg = Event_OUTPUT" using assms(1) by (simp add: stamped_type_def)
  ultimately show "GenerateEvent_turn cfg arts execs store draw i st =
              Continue (i + 1)
                (st\<lparr>output_artifact_ids := insert a (output_artifact_ids st), store_state := s',
                    put_request := put_request st @ [foo_event Event_OUTPUT a x],
                    curr_bytes := curr_bytes st + 20\<rparr>)"
    using e assms
    by (simp add: GenerateEvent_turn_OUTPUT_eq check_output_candidate_eq accept_candidate_def
          SetEvent_def fill_added_event_eq)
qed

text \<open>
  The claim as the specification states it fails: the store answers the query with a
  NOT\_FOUND status, and \<^verbatim>\<open>GenerateEvent\<close> returns that status with no event generated.
\<close>

theorem not_found_status_counterexample:
  "GenerateEvent output_config two_artifacts one_execution 1 answering [(0, 0)]
     (script_state {} [(error_status NOT_FOUND, [])]) =
   Some (Returned (error_status NOT_FOUND) (script_state {1} [], [])) \<and>
   code (error_status NOT_FOUND) = NOT_FOUND \<and>
   GetEventsByArtifactIDs answering [(error_status NOT_FOUND, [])] [1] =
     ((error_status NOT_FOUND, []), [])"
  by code_simp

theorem not_found_status_is_returned_witness:
  "GenerateEvent_while output_config two_artifacts one_execution 1 answering [(0, 0)] 0
     (script_state {} [(error_status NOT_FOUND, [])]) =
   Some (Returned (error_status NOT_FOUND) (script_state {1} [], [])) \<and>
   GenerateEvent_turn output_config two_artifacts one_execution answering (0, 0) 0
     (script_state {} [(Status_OK, [])]) =
   Continue 1 ((script_state {1} [])\<lparr>put_request := [foo_event Event_OUTPUT 1 7], curr_bytes := 20\<rparr>)"
proof -
  have cfg: "config_specification output_config = FillEventsConfig_OUTPUT" by code_simp
  have a: "get_Artifact_id two_artifacts (fst (0 :: nat, 0 :: nat)) = Inr 1" by code_simp
  have x: "get_Execution_id one_execution (snd (0 :: nat, 0 :: nat)) = Inr 7" by code_simp
  have q1: "GetEventsByArtifactIDs answering
      (store_state (script_state {} [(error_status NOT_FOUND, [])])) [1] =
      ((error_status NOT_FOUND, []), [])"
    by code_simp
  have q2: "GetEventsByArtifactIDs answering (store_state (script_state {} [(Status_OK, [])])) [1] =
      ((Status_OK, []), [])"
    by code_simp
  have f: "\<not> ok (error_status NOT_FOUND) \<and> code (error_status NOT_FOUND) \<noteq> ALREADY_EXISTS \<and>
      (0 :: int) < 1"
    by code_simp
  have e: "ok Status_OK \<and> (\<forall>e\<in>set ([] :: Event list). event_type e \<noteq> Event_OUTPUT) \<and>
      1 \<notin> output_artifact_ids (script_state {} [(Status_OK, [])]) \<and>
      curr_bytes (script_state {} [(Status_OK, [])]) + 20 \<le> INT64_MAX \<and> (0 :: int) \<noteq> INT_MAX"
    by (simp add: ok_Status_OK script_state_def gen_state_0_def INT64_MAX_def INT_MAX_def)
  from not_found_status_is_returned [OF cfg a x q1, of 0 1 "[]"] f
  have r1: "GenerateEvent_while output_config two_artifacts one_execution 1 answering [(0, 0)] 0
      (script_state {} [(error_status NOT_FOUND, [])]) =
    Some (Returned (error_status NOT_FOUND)
      ((script_state {} [(error_status NOT_FOUND, [])])
         \<lparr>output_artifact_ids :=
            insert 1 (output_artifact_ids (script_state {} [(error_status NOT_FOUND, [])])),
          store_state := []\<rparr>, []))"
    by simp
  from not_found_status_is_returned [OF cfg a x q2, of 0 1 "[]"] e
  have r2: "GenerateEvent_turn output_config two_artifacts one_execution answering (0, 0) 0
      (script_state {} [(Status_OK, [])]) =
    Continue (0 + 1)
      ((script_state {} [(Status_OK, [])])
         \<lparr>output_artifact_ids := insert 1 (output_artifact_ids (script_state {} [(Status_OK, [])])),
          store_state := [],
          put_request := put_request (script_state {} [(Status_OK, [])]) @ [foo_event Event_OUTPUT 1 7],
          curr_bytes := curr_bytes (script_state {} [(Status_OK, [])]) + 20\<rparr>)"
    by simp
  from r1 r2 show ?thesis by (simp add: script_state_def gen_state_0_def)
qed

subsection \<open>A failed SetUp\<close>

lemma SetUpImpl_for_completed_batches:
  assumes "SetUpImpl_for this arts execs store nes gen i s = Some (Returned status (this', s'))"
  shows "new_work_items this this' =
           completed_batches_for (m_fill_events_config this) (m_num_operations this) arts execs
             store nes gen i (m_output_artifact_ids this) s"
  using assms
proof (induction nes arbitrary: this gen i s)
  case Nil
  then show ?case by (auto simp: new_work_items_def split: if_splits)
next
  case (Cons n nes)
  show ?case
  proof (cases "i < m_num_operations this")
    case False
    with Cons.prems show ?thesis by (auto simp: new_work_items_def)
  next
    case True
    from True Cons.prems obtain status1 st gen1 where
      g: "GenerateEvent (m_fill_events_config this) arts execs n store gen
            (gen_state_0 (m_output_artifact_ids this) s) = Some (Returned status1 (st, gen1))"
      by (auto simp: gen_state_0_def split: option.splits Outcome.splits)
    show ?thesis
    proof (cases "ok status1")
      case False
      from SetUpImpl_for_failed_batch [OF True g False, of nes] Cons.prems have
        "this' = this\<lparr>m_output_artifact_ids := output_artifact_ids st\<rparr>" by simp
      then have "new_work_items this this' = []" by (simp add: new_work_items_def)
      with True g False show ?thesis by simp
    next
      case ok1: True
      let ?this1 = "this\<lparr>m_output_artifact_ids := output_artifact_ids st,
                    m_work_items := m_work_items this @ [(put_request st, curr_bytes st)]\<rparr>"
      from SetUpImpl_for_completed_batch [OF True g ok1, of nes] Cons.prems have
        r: "SetUpImpl_for ?this1 arts execs store nes gen1 (i + 1) (store_state st) =
              Some (Returned status (this', s'))"
        by simp
      from Cons.IH [OF r] have "new_work_items ?this1 this' =
          completed_batches_for (m_fill_events_config this) (m_num_operations this) arts execs
            store nes gen1 (i + 1) (output_artifact_ids st) (store_state st)"
        by simp
      with SetUpImpl_for_keeps_completed_batch [OF True g ok1 Cons.prems] True g ok1
      show ?thesis by simp
    qed
  qed
qed

lemma SetUpImpl_completed_batches:
  assumes "SetUpImpl this store nes gen s = Some (Returned status (this', s'))"
  shows "new_work_items this this' = completed_batches this store nes gen s"
proof (cases "ok (fst (fst (GetExistingNodes store (m_fill_events_config this) s)))")
  case False
  with assms have "this' = this"
    by (auto simp: SetUpImpl_def split: prod.splits if_splits)
  with False show ?thesis
    by (auto simp: new_work_items_def completed_batches_def split: prod.splits)
next
  case True
  with assms have
    "SetUpImpl_for this (fst (snd (fst (GetExistingNodes store (m_fill_events_config this) s))))
       (snd (snd (fst (GetExistingNodes store (m_fill_events_config this) s)))) store nes gen 0
       (snd (GetExistingNodes store (m_fill_events_config this) s)) =
     Some (Returned status (this', s'))"
    by (auto simp: SetUpImpl_def split: prod.splits if_splits)
  from SetUpImpl_for_completed_batches [OF this] True show ?thesis
    by (auto simp: completed_batches_def split: prod.splits)
qed

text \<open>
  C6, as amended. When \<^verbatim>\<open>SetUpImpl\<close> returns a status that is not OK, the work items
  are those held before the call followed by exactly the batches whose generation returned
  OK before the first generation that did not: fewer batches than operations (none when
  the failure came before the first batch), each complete. In the loop of \<^verbatim>\<open>SetUpImpl\<close>,
  a generation that returns a status that is not OK makes the loop return that status at
  once with no batch appended, and a batch whose generation returned OK is in the work
  items whatever the loop returns afterwards.
\<close>

theorem SetUpImpl_failure_keeps_completed_batches:
  assumes "SetUpImpl this store nes gen s = Some (Returned status (this', s'))"
    and "\<not> ok status"
  shows "m_work_items this' = m_work_items this @ new_work_items this this' \<and>
         new_work_items this this' = completed_batches this store nes gen s \<and>
         (new_work_items this this' = [] \<or>
          int (length (new_work_items this this')) < m_num_operations this) \<and>
         map (\<lambda>w. int (length (fst w))) (new_work_items this this') =
           map (max 0) (take (length (new_work_items this this')) nes) \<and>
         (k < m_num_operations that \<and>
          GenerateEvent (m_fill_events_config that) arts execs m store gen1
            (gen_state_0 (m_output_artifact_ids that) s1) = Some (Returned status1 (st1, gen2)) \<and>
          \<not> ok status1 \<longrightarrow>
            SetUpImpl_for that arts execs store (m # ms) gen1 k s1 =
              Some (Returned status1
                (that\<lparr>m_output_artifact_ids := output_artifact_ids st1\<rparr>, store_state st1))) \<and>
         (k < m_num_operations that \<and>
          GenerateEvent (m_fill_events_config that) arts execs m store gen1
            (gen_state_0 (m_output_artifact_ids that) s1) = Some (Returned status1 (st1, gen2)) \<and>
          ok status1 \<and>
          SetUpImpl_for that arts execs store (m # ms) gen1 k s1 = Some (Returned status2 (that', s2)) \<longrightarrow>
            (\<exists>later. m_work_items that' =
               m_work_items that @ (put_request st1, curr_bytes st1) # later))"
proof (intro conjI impI)
  from SetUpImpl_batches [OF assms(1)] assms(2)
  show "m_work_items this' = m_work_items this @ new_work_items this this'"
    and "new_work_items this this' = [] \<or>
          int (length (new_work_items this this')) < m_num_operations this"
    by blast+
  from SetUpImpl_batches [OF assms(1)] list_all2_stored_batch_lengths
  show "map (\<lambda>w. int (length (fst w))) (new_work_items this this') =
           map (max 0) (take (length (new_work_items this this')) nes)"
    by blast
  from SetUpImpl_completed_batches [OF assms(1)]
  show "new_work_items this this' = completed_batches this store nes gen s" .
next
  assume "k < m_num_operations that \<and>
          GenerateEvent (m_fill_events_config that) arts execs m store gen1
            (gen_state_0 (m_output_artifact_ids that) s1) = Some (Returned status1 (st1, gen2)) \<and>
          \<not> ok status1"
  then have f1: "k < m_num_operations that"
    and f2: "GenerateEvent (m_fill_events_config that) arts execs m store gen1
            (gen_state_0 (m_output_artifact_ids that) s1) = Some (Returned status1 (st1, gen2))"
    and f3: "\<not> ok status1"
    by blast+
  from SetUpImpl_for_failed_batch [OF f1 f2 f3]
  show "SetUpImpl_for that arts execs store (m # ms) gen1 k s1 =
              Some (Returned status1
                (that\<lparr>m_output_artifact_ids := output_artifact_ids st1\<rparr>, store_state st1))" .
next
  assume c: "k < m_num_operations that \<and>
          GenerateEvent (m_fill_events_config that) arts execs m store gen1
            (gen_state_0 (m_output_artifact_ids that) s1) = Some (Returned status1 (st1, gen2)) \<and>
          ok status1 \<and>
          SetUpImpl_for that arts execs store (m # ms) gen1 k s1 = Some (Returned status2 (that', s2))"
  then have c1: "k < m_num_operations that"
    and c2: "GenerateEvent (m_fill_events_config that) arts execs m store gen1
            (gen_state_0 (m_output_artifact_ids that) s1) = Some (Returned status1 (st1, gen2))"
    and c3: "ok status1"
    and c4: "SetUpImpl_for that arts execs store (m # ms) gen1 k s1 = Some (Returned status2 (that', s2))"
    by blast+
  from SetUpImpl_for_keeps_completed_batch [OF c1 c2 c3 c4]
  have "new_work_items that that' =
      (put_request st1, curr_bytes st1) #
      new_work_items
        (that\<lparr>m_output_artifact_ids := output_artifact_ids st1,
              m_work_items := m_work_items that @ [(put_request st1, curr_bytes st1)]\<rparr>) that'" .
  moreover from SetUpImpl_for_work_items [OF c4]
  have "m_work_items that' = m_work_items that @ new_work_items that that'" .
  ultimately show "\<exists>later. m_work_items that' =
               m_work_items that @ (put_request st1, curr_bytes st1) # later"
    by simp
qed

text \<open>
  The claim as the specification states it fails: the store answers the second query with
  INTERNAL, \<^verbatim>\<open>SetUpImpl\<close> returns that status, and the batch of the first operation is
  still in \<^verbatim>\<open>work_items_\<close>, which was empty before the call.
\<close>

theorem SetUpImpl_failure_counterexample:
  "SetUpImpl fresh_2 answering [1, 1] [(0, 0), (1, 0)]
     [(Status_OK, []), (error_status INTERNAL, [])] =
   Some (Returned (error_status INTERNAL)
     (fresh_2\<lparr>m_work_items := [([foo_event Event_OUTPUT 1 7], 20)],
              m_output_artifact_ids := {1, 2}\<rparr>, [])) \<and>
   \<not> ok (error_status INTERNAL) \<and>
   m_work_items fresh_2 = [] \<and>
   m_work_items
     (fresh_2\<lparr>m_work_items := [([foo_event Event_OUTPUT 1 7], 20)],
              m_output_artifact_ids := {1, 2}\<rparr>) \<noteq> []"
  by code_simp

theorem SetUpImpl_failure_keeps_completed_batches_witness:
  "SetUpImpl fresh_3 answering [1, 2, 1] [(0, 0), (1, 0)]
     [(Status_OK, []), (error_status UNAVAILABLE, [])] =
   Some (Returned (error_status UNAVAILABLE)
     (fresh_3\<lparr>m_work_items := [([foo_event Event_OUTPUT 1 7], 20)],
              m_output_artifact_ids := {1, 2}\<rparr>, [])) \<and>
   \<not> ok (error_status UNAVAILABLE) \<and>
   completed_batches fresh_3 answering [1, 2, 1] [(0, 0), (1, 0)]
     [(Status_OK, []), (error_status UNAVAILABLE, [])] = [([foo_event Event_OUTPUT 1 7], 20)] \<and>
   (1 :: int) < 3 \<and>
   GenerateEvent output_config two_artifacts one_execution 1 answering [(0, 0), (1, 0)]
     (gen_state_0 {} [(Status_OK, []), (error_status UNAVAILABLE, [])]) =
   Some (Returned Status_OK
     ((script_state {1} [(error_status UNAVAILABLE, [])])
        \<lparr>put_request := [foo_event Event_OUTPUT 1 7], curr_bytes := 20\<rparr>, [(1, 0)])) \<and>
   SetUpImpl_for fresh_3 two_artifacts one_execution answering [1, 2, 1] [(0, 0), (1, 0)] 0
     [(Status_OK, []), (error_status UNAVAILABLE, [])] =
   Some (Returned (error_status UNAVAILABLE)
     (fresh_3\<lparr>m_work_items := [([foo_event Event_OUTPUT 1 7], 20)],
              m_output_artifact_ids := {1, 2}\<rparr>, [])) \<and>
   GenerateEvent output_config two_artifacts one_execution 2 answering [(1, 0)]
     (gen_state_0 {1} [(error_status UNAVAILABLE, [])]) =
   Some (Returned (error_status UNAVAILABLE) (script_state {1, 2} [], [])) \<and>
   SetUpImpl_for
     (fresh_3\<lparr>m_work_items := [([foo_event Event_OUTPUT 1 7], 20)], m_output_artifact_ids := {1}\<rparr>)
     two_artifacts one_execution answering [2, 1] [(1, 0)] 1 [(error_status UNAVAILABLE, [])] =
   Some (Returned (error_status UNAVAILABLE)
     (fresh_3\<lparr>m_work_items := [([foo_event Event_OUTPUT 1 7], 20)],
              m_output_artifact_ids := {1, 2}\<rparr>, []))"
proof -
  let ?kept = "fresh_3\<lparr>m_work_items := [([foo_event Event_OUTPUT 1 7], 20)],
              m_output_artifact_ids := {1, 2}\<rparr>"
  let ?mid = "fresh_3\<lparr>m_work_items := [([foo_event Event_OUTPUT 1 7], 20)],
              m_output_artifact_ids := {1}\<rparr>"
  let ?st1 = "(script_state {1} [(error_status UNAVAILABLE, [])])
        \<lparr>put_request := [foo_event Event_OUTPUT 1 7], curr_bytes := 20\<rparr>"
  have run: "SetUpImpl fresh_3 answering [1, 2, 1] [(0, 0), (1, 0)]
     [(Status_OK, []), (error_status UNAVAILABLE, [])] =
   Some (Returned (error_status UNAVAILABLE) (?kept, []))"
    by code_simp
  have bad: "\<not> ok (error_status UNAVAILABLE)" by (simp add: ok_def error_status_def)
  have first: "0 < m_num_operations fresh_3 \<and>
      GenerateEvent (m_fill_events_config fresh_3) two_artifacts one_execution 1 answering
        [(0, 0), (1, 0)]
        (gen_state_0 (m_output_artifact_ids fresh_3) [(Status_OK, []), (error_status UNAVAILABLE, [])]) =
      Some (Returned Status_OK (?st1, [(1, 0)])) \<and>
      ok Status_OK \<and>
      SetUpImpl_for fresh_3 two_artifacts one_execution answering (1 # [2, 1]) [(0, 0), (1, 0)] 0
        [(Status_OK, []), (error_status UNAVAILABLE, [])] =
      Some (Returned (error_status UNAVAILABLE) (?kept, []))"
    by code_simp
  have second: "1 < m_num_operations ?mid \<and>
      GenerateEvent (m_fill_events_config ?mid) two_artifacts one_execution 2 answering [(1, 0)]
        (gen_state_0 (m_output_artifact_ids ?mid) [(error_status UNAVAILABLE, [])]) =
      Some (Returned (error_status UNAVAILABLE) (script_state {1, 2} [], [])) \<and>
      \<not> ok (error_status UNAVAILABLE)"
    by code_simp
  note t = SetUpImpl_failure_keeps_completed_batches [OF run bad]
  from t have exact: "new_work_items fresh_3 ?kept =
      completed_batches fresh_3 answering [1, 2, 1] [(0, 0), (1, 0)]
        [(Status_OK, []), (error_status UNAVAILABLE, [])]"
    by blast
  from t [where that = fresh_3 and k = 0 and m = 1 and ms = "[2, 1]" and arts = two_artifacts
      and execs = one_execution and ?gen1.0 = "[(0, 0), (1, 0)]"
      and ?s1.0 = "[(Status_OK, []), (error_status UNAVAILABLE, [])]" and ?status1.0 = Status_OK
      and ?st1.0 = ?st1 and ?gen2.0 = "[(1, 0)]" and ?status2.0 = "error_status UNAVAILABLE"
      and that' = ?kept and ?s2.0 = "[]"] first
  have kept: "\<exists>later. m_work_items ?kept =
      m_work_items fresh_3 @ (put_request ?st1, curr_bytes ?st1) # later"
    by blast
  from t [where that = ?mid and k = 1 and m = 2 and ms = "[1]" and arts = two_artifacts
      and execs = one_execution and ?gen1.0 = "[(1, 0)]"
      and ?s1.0 = "[(error_status UNAVAILABLE, [])]" and ?status1.0 = "error_status UNAVAILABLE"
      and ?st1.0 = "script_state {1, 2} []" and ?gen2.0 = "[]"] second
  have at_once: "SetUpImpl_for ?mid two_artifacts one_execution answering (2 # [1]) [(1, 0)] 1
      [(error_status UNAVAILABLE, [])] =
    Some (Returned (error_status UNAVAILABLE)
      (?mid\<lparr>m_output_artifact_ids := output_artifact_ids (script_state {1, 2} [])\<rparr>,
       store_state (script_state {1, 2} [])))"
    by blast
  have e1: "new_work_items fresh_3 ?kept = [([foo_event Event_OUTPUT 1 7], 20)]"
    by code_simp
  have e2: "?mid\<lparr>m_output_artifact_ids := output_artifact_ids (script_state {1, 2} [])\<rparr> = ?kept"
    "store_state (script_state {1, 2} []) = []"
    by code_simp+
  have e3: "m_fill_events_config fresh_3 = output_config" "m_output_artifact_ids fresh_3 = {}"
    "m_fill_events_config ?mid = output_config" "m_output_artifact_ids ?mid = {1}"
    by code_simp+
  from run bad exact at_once first second show ?thesis
    unfolding e1 e2 e3 by simp
qed

end
